theory Spec2Isabelle
  imports Main
begin

section \<open>Python strings\<close>

text \<open>
  A Python \<open>str\<close> is modelled as a \<open>string\<close>; a \<open>char\<close> stands for one code point
  below 256.  \<open>is_space\<close> is the whitespace class that both \<open>str.strip()\<close> and the
  regular expression class \<open>\s\<close> (on \<open>str\<close> patterns) use, restricted to that range:
  U+0009..U+000D, U+001C..U+0020, U+0085 and U+00A0.
\<close>

definition is_space :: "char \<Rightarrow> bool" where
  "is_space c =
     (let n = (of_char c :: nat)
      in (9 \<le> n \<and> n \<le> 13) \<or> (28 \<le> n \<and> n \<le> 32) \<or> n = 133 \<or> n = 160)"

text \<open>\<open>s.strip()\<close>: whitespace removed at both ends.\<close>

definition py_strip :: "string \<Rightarrow> string" where
  "py_strip s = rev (dropWhile is_space (rev (dropWhile is_space s)))"

text \<open>\<open>sep.join(parts)\<close>.\<close>

fun py_join :: "string \<Rightarrow> string list \<Rightarrow> string" where
  "py_join sep [] = []"
| "py_join sep [p] = p"
| "py_join sep (p # q # ps) = p @ sep @ py_join sep (q # ps)"

text \<open>
  \<open>find_sep sep s\<close> cuts \<open>s\<close> at the leftmost occurrence of the non-empty separator
  \<open>sep\<close>: the text before it and the text after it, or \<open>None\<close> when \<open>sep\<close> does not
  occur.
\<close>

fun find_sep :: "string \<Rightarrow> string \<Rightarrow> (string \<times> string) option" where
  "find_sep sep [] = None"
| "find_sep sep (c # cs) =
     (if take (length sep) (c # cs) = sep then Some ([], drop (length sep) (c # cs))
      else (case find_sep sep cs of
              None \<Rightarrow> None
            | Some (before, after) \<Rightarrow> Some (c # before, after)))"

text \<open>
  Exceptions as values.  \<open>exn\<close> stands for an instance of Python's \<open>Exception\<close>:
  a \<open>requests.RequestException\<close> (connection errors, and the \<open>HTTPError\<close> of
  \<open>raise_for_status\<close>) or any other \<open>Exception\<close>; the string is \<open>str(e)\<close>.
  \<open>KeyboardInterrupt\<close> and \<open>SystemExit\<close> (the run killed from outside) are not
  instances of \<open>Exception\<close> and are outside the model.
\<close>

datatype exn = RequestException string | PyException string

fun exn_str :: "exn \<Rightarrow> string" where
  "exn_str (RequestException m) = m"
| "exn_str (PyException m) = m"

text \<open>
  \<open>s.split(sep, 1)\<close>: at most one split, at the leftmost occurrence of \<open>sep\<close>.
  An empty separator raises \<open>ValueError\<close>.
\<close>

definition py_split1 :: "string \<Rightarrow> string \<Rightarrow> exn + string list" where
  "py_split1 s sep =
     (if sep = [] then Inl (PyException ''empty separator'')
      else (case find_sep sep s of
              None \<Rightarrow> Inr [s]
            | Some (before, after) \<Rightarrow> Inr [before, after]))"

text \<open>
  \<open>re.sub(r'\s+', ' ', s)\<close>: every maximal run of whitespace characters, scanned
  from the left, is replaced by one space.
\<close>

function collapse_ws :: "string \<Rightarrow> string" where
  "collapse_ws [] = []"
| "collapse_ws (c # cs) =
     (if is_space c then CHR '' '' # collapse_ws (dropWhile is_space cs)
      else c # collapse_ws cs)"
  by pat_completeness auto
termination
  by (relation "measure length") (auto simp: length_dropWhile_le less_Suc_eq_le)

section \<open>Dictionaries\<close>

text \<open>
  A Python \<open>dict\<close> with string keys and values, in insertion order (the order in
  which \<open>json.dump\<close> writes the keys).  \<open>dict_set k v d\<close> is \<open>d[k] = v\<close>: an existing
  key keeps its place, a new key goes last.  \<open>dict_update d other\<close> is
  \<open>{**d, **other}\<close>.
\<close>

type_synonym dict = "(string \<times> string) list"

fun dict_set :: "string \<Rightarrow> string \<Rightarrow> dict \<Rightarrow> dict" where
  "dict_set k v [] = [(k, v)]"
| "dict_set k v ((k', v') # d) =
     (if k' = k then (k', v) # d else (k', v') # dict_set k v d)"

definition dict_get :: "dict \<Rightarrow> string \<Rightarrow> string option" where
  "dict_get d k = map_of d k"

definition dict_keys :: "dict \<Rightarrow> string list" where
  "dict_keys d = map fst d"

fun dict_update :: "dict \<Rightarrow> dict \<Rightarrow> dict" where
  "dict_update d [] = d"
| "dict_update d ((k, v) # other) = dict_update (dict_set k v d) other"

section \<open>The markup query capability\<close>

text \<open>
  What the program sees of a BeautifulSoup tag: its text nodes in document order
  (\<open>strings\<close>) and its attributes.  \<open>get_text sep el\<close> is
  \<open>el.get_text(separator=sep, strip=True)\<close>: every text node is stripped, the empty
  ones are dropped, the rest are joined by \<open>sep\<close>.  A parsed document is seen only
  through its selector queries, so a \<open>soup\<close> is the function from a CSS selector to
  the tags it matches, in document order.
\<close>

record element =
  strings :: "string list"
  attrs :: "string \<rightharpoonup> string"

definition get_text :: "string \<Rightarrow> element \<Rightarrow> string" where
  "get_text sep el = py_join sep (filter (\<lambda>s. s \<noteq> []) (map py_strip (strings el)))"

text \<open>\<open>el.get(k, default)\<close>; \<open>el.get(k)\<close> is \<open>attrs el k\<close>, with \<open>None\<close> for Python's.\<close>

definition get_or :: "element \<Rightarrow> string \<Rightarrow> string \<Rightarrow> string" where
  "get_or el k dflt = (case attrs el k of None \<Rightarrow> dflt | Some v \<Rightarrow> v)"

type_synonym soup = "string \<Rightarrow> element list"

definition select :: "soup \<Rightarrow> string \<Rightarrow> element list" where
  "select soup css = soup css"

definition select_one :: "soup \<Rightarrow> string \<Rightarrow> element option" where
  "select_one soup css = (case select soup css of [] \<Rightarrow> None | el # _ \<Rightarrow> Some el)"

section \<open>Effects\<close>

text \<open>
  A statement of the script is a function from the state of the world to its
  outcome and the new state: \<open>Inr v\<close> when it completes with value \<open>v\<close>, \<open>Inl e\<close>
  when it raises \<open>e\<close>.  \<open>and_then\<close> runs two statements in sequence, the second
  only when the first completes; \<open>try_except\<close> runs a handler on the exception
  raised by the body, and what the handler raises is raised by the whole.
\<close>

type_synonym ('a, 'w) prog = "'w \<Rightarrow> (exn + 'a) \<times> 'w"

definition ret :: "'a \<Rightarrow> ('a, 'w) prog" where
  "ret v w = (Inr v, w)"

definition raise_exn :: "exn \<Rightarrow> ('a, 'w) prog" where
  "raise_exn e w = (Inl e, w)"

definition lift_sum :: "exn + 'a \<Rightarrow> ('a, 'w) prog" where
  "lift_sum r w = (r, w)"

definition and_then :: "('a, 'w) prog \<Rightarrow> ('a \<Rightarrow> ('b, 'w) prog) \<Rightarrow> ('b, 'w) prog" where
  "and_then m f w = (case m w of (Inl e, w') \<Rightarrow> (Inl e, w') | (Inr v, w') \<Rightarrow> f v w')"

definition try_except :: "('a, 'w) prog \<Rightarrow> (exn \<Rightarrow> ('a, 'w) prog) \<Rightarrow> ('a, 'w) prog" where
  "try_except body handler w =
     (case body w of (Inl e, w') \<Rightarrow> handler e w' | (Inr v, w') \<Rightarrow> (Inr v, w'))"

section \<open>The outside world\<close>

text \<open>
  The libraries the script calls are parameters of the model.  \<open>'w\<close> is the state of
  the world (network, clock, console), threaded through every call that touches
  it; \<open>'r\<close> is a \<open>requests\<close> response.
  \<^item> \<open>py_print s\<close>: \<open>print(s)\<close>, which writes to the console or raises (a closed or
    broken stream, a character the console's encoding does not have);
  \<^item> \<open>requests_get url headers\<close>: the response, or the exception \<open>requests.get\<close> raises;
  \<^item> \<open>raise_for_status r\<close>: the exception \<open>r.raise_for_status()\<close> raises, if any;
  \<^item> \<open>content r\<close>: the body;
  \<^item> \<open>BeautifulSoup body parser\<close>: the parsed document, or the exception raised;
  \<^item> \<open>datetime_now_isoformat\<close>: \<open>datetime.now().isoformat()\<close>;
  \<^item> \<open>time_sleep n\<close>: \<open>time.sleep(n)\<close>.
\<close>

record ('w, 'r) env =
  py_print :: "string \<Rightarrow> (unit, 'w) prog"
  requests_get :: "string \<Rightarrow> (string \<times> string) list \<Rightarrow> ('r, 'w) prog"
  raise_for_status :: "'r \<Rightarrow> exn option"
  content :: "'r \<Rightarrow> string"
  BeautifulSoup :: "string \<Rightarrow> string \<Rightarrow> exn + soup"
  datetime_now_isoformat :: "'w \<Rightarrow> string \<times> 'w"
  time_sleep :: "nat \<Rightarrow> 'w \<Rightarrow> 'w"

text \<open>\<open>response.raise_for_status()\<close> as a statement.\<close>

definition check_status :: "('w, 'r) env \<Rightarrow> 'r \<Rightarrow> (unit, 'w) prog" where
  "check_status env response =
     (case raise_for_status env response of Some e \<Rightarrow> raise_exn e | None \<Rightarrow> ret ())"

definition headers :: "(string \<times> string) list" where
  "headers = [(''User-Agent'',
     ''Mozilla/5.0 (Macintosh; Intel Mac OS X 10_15_7) AppleWebKit/537.36 (KHTML, like Gecko) Chrome/91.0.4472.124 Safari/537.36'')]"

text \<open>\<open>str(n)\<close> for a natural number, as the f-strings format \<open>len(events)\<close> and \<open>i\<close>.\<close>

fun str_nat :: "nat \<Rightarrow> string" where
  "str_nat n =
     (if n < 10 then [''0123456789'' ! n]
      else str_nat (n div 10) @ [''0123456789'' ! (n mod 10)])"

declare str_nat.simps [simp del]

section \<open>\<open>scrape_runway_events\<close>\<close>

record event_info =
  title :: string
  url :: string
  scraped_at :: string

text \<open>The local \<open>url\<close> of \<open>scrape_runway_events\<close>.\<close>

definition listing_url :: string where
  "listing_url = ''https://www.runwayplayavista.com/events2''"

text \<open>The f-strings that \<open>scrape_runway_events\<close> prints.\<close>

definition fetching_message :: string where
  "fetching_message = ''Fetching events from: '' @ listing_url"

definition found_message :: "string \<Rightarrow> string \<Rightarrow> string" where
  "found_message title_v href = ''Found event: '' @ title_v @ '' - '' @ href"

definition total_message :: "event_info list \<Rightarrow> string" where
  "total_message events = CHR 0x0A # ''Total events found: '' @ str_nat (length events)"

definition fetch_error_message :: "exn \<Rightarrow> string" where
  "fetch_error_message e = ''Error fetching the webpage: '' @ exn_str e"

definition parse_error_message :: "exn \<Rightarrow> string" where
  "parse_error_message e = ''Error parsing the webpage: '' @ exn_str e"

text \<open>
  The loop over \<open>event_links\<close>, with \<open>events\<close> as the list built so far.  \<open>if href:\<close>
  is false for a missing attribute and for the empty string; \<open>a or b\<close> on strings is
  \<open>b\<close> exactly when \<open>a\<close> is empty.
\<close>

fun harvest_links ::
  "('w, 'r) env \<Rightarrow> element list \<Rightarrow> event_info list \<Rightarrow> (event_info list, 'w) prog" where
  "harvest_links env [] events w = (Inr events, w)"
| "harvest_links env (link # links) events w =
     (case attrs link ''href'' of
        None \<Rightarrow> harvest_links env links events w
      | Some href \<Rightarrow>
          if href = [] then harvest_links env links events w
          else
            (let text = get_text [] link;
                 title_v = (if text \<noteq> [] then text else get_or link ''title'' ''No title'');
                 (stamp, w1) = datetime_now_isoformat env w;
                 event_info = \<lparr>title = title_v,
                               url = ''https://www.runwayplayavista.com/'' @ href,
                               scraped_at = stamp\<rparr>;
                 events = events @ [event_info]
             in case py_print env (found_message title_v href) w1 of
                  (Inl e, w2) \<Rightarrow> (Inl e, w2)
                | (Inr u, w2) \<Rightarrow> harvest_links env links events w2))"

text \<open>The body of the \<open>try\<close>.\<close>

definition scrape_runway_events_try :: "('w, 'r) env \<Rightarrow> (event_info list, 'w) prog" where
  "scrape_runway_events_try env =
     and_then (py_print env fetching_message) (\<lambda>u.
     and_then (requests_get env listing_url headers) (\<lambda>response.
     and_then (check_status env response) (\<lambda>u.
     and_then (lift_sum (BeautifulSoup env (content env response) ''html.parser'')) (\<lambda>soup.
     and_then (harvest_links env
                 (select soup ''div.eventlist.eventlist--upcoming > article.eventlist-event > a'')
                 []) (\<lambda>events.
     and_then (py_print env (total_message events)) (\<lambda>u.
     ret events))))))"

text \<open>
  The \<open>try\<close> with its two handlers, in the source's order: \<open>except
  requests.RequestException\<close>, then \<open>except Exception\<close>.  Each prints and then
  returns \<open>[]\<close>; an exception raised by a handler's \<open>print\<close> is raised to the
  caller.
\<close>

definition scrape_runway_events :: "('w, 'r) env \<Rightarrow> (event_info list, 'w) prog" where
  "scrape_runway_events env =
     try_except (scrape_runway_events_try env)
       (\<lambda>e. case e of
          RequestException m \<Rightarrow>
            and_then (py_print env (fetch_error_message e)) (\<lambda>u. ret [])
        | PyException m \<Rightarrow>
            and_then (py_print env (parse_error_message e)) (\<lambda>u. ret []))"

section \<open>\<open>scrape_event_details\<close>\<close>

text \<open>
  The field blocks of the \<open>try\<close> body, one definition per block, each taking the
  \<open>details\<close> built so far.
\<close>

definition details_title :: "soup \<Rightarrow> dict \<Rightarrow> dict" where
  "details_title soup details =
     (let title_elem = select_one soup ''h1.eventitem-title''
      in dict_set ''title''
           (case title_elem of
              Some el \<Rightarrow> get_text [] el
            | None \<Rightarrow> ''No title found'')
           details)"

text \<open>
  The date text without its day of week: \<open>date_parts = full_date_text.split(', ', 1)\<close>
  and the choice between \<open>date_parts[1]\<close> and \<open>full_date_text\<close>.
\<close>

definition date_of_text :: "string \<Rightarrow> exn + string" where
  "date_of_text full_date_text =
     (case py_split1 full_date_text '', '' of
        Inl e \<Rightarrow> Inl e
      | Inr date_parts \<Rightarrow>
          Inr (if length date_parts > 1 then date_parts ! 1 else full_date_text))"

definition details_date :: "soup \<Rightarrow> dict \<Rightarrow> exn + dict" where
  "details_date soup details =
     (case select_one soup ''time.event-date'' of
        Some date_elem \<Rightarrow>
          (let full_date_text = get_text [] date_elem
           in case date_of_text full_date_text of
                Inl e \<Rightarrow> Inl e
              | Inr date_v \<Rightarrow>
                  Inr (dict_set ''date_datetime'' (get_or date_elem ''datetime'' [])
                         (dict_set ''date'' date_v details)))
      | None \<Rightarrow>
          Inr (dict_set ''date_datetime'' [] (dict_set ''date'' ''No date found'' details)))"

definition details_start_time :: "soup \<Rightarrow> dict \<Rightarrow> dict" where
  "details_start_time soup details =
     (let start_time_elem = select_one soup ''time.event-time-localized-start''
      in dict_set ''start_time''
           (case start_time_elem of
              Some el \<Rightarrow> get_text [] el
            | None \<Rightarrow> ''No start time found'')
           details)"

definition details_end_time :: "soup \<Rightarrow> dict \<Rightarrow> dict" where
  "details_end_time soup details =
     (let end_time_elem = select_one soup ''time.event-time-localized-end''
      in dict_set ''end_time''
           (case end_time_elem of
              Some el \<Rightarrow> get_text [] el
            | None \<Rightarrow> ''No end time found'')
           details)"

definition details_book_link :: "soup \<Rightarrow> dict \<Rightarrow> dict" where
  "details_book_link soup details =
     (case select_one soup
             ''a.sqs-block-button-element--medium.sqs-button-element--primary.sqs-block-button-element'' of
        Some book_link_elem \<Rightarrow>
          dict_set ''book_link_text'' (get_text [] book_link_elem)
            (dict_set ''book_link'' (get_or book_link_elem ''href'' []) details)
      | None \<Rightarrow> dict_set ''book_link_text'' [] (dict_set ''book_link'' [] details))"

definition details_description :: "soup \<Rightarrow> dict \<Rightarrow> dict" where
  "details_description soup details =
     (case select_one soup ''div.sqs-block.html-block.sqs-block-html'' of
        Some desc_elem \<Rightarrow>
          (let description_text = get_text '' '' desc_elem;
               description_text = collapse_ws description_text
           in dict_set ''description'' description_text details)
      | None \<Rightarrow> dict_set ''description'' ''No description found'' details)"

text \<open>From \<open>details = {}\<close> to \<open>return details\<close>.\<close>

definition extract_details :: "soup \<Rightarrow> exn + dict" where
  "extract_details soup =
     (let details = [];
          details = details_title soup details
      in case details_date soup details of
           Inl e \<Rightarrow> Inl e
         | Inr details \<Rightarrow>
             (let details = details_start_time soup details;
                  details = details_end_time soup details;
                  details = details_book_link soup details;
                  details = details_description soup details
              in Inr details))"

text \<open>The body of the \<open>try\<close>.\<close>

definition scrape_event_details_try :: "('w, 'r) env \<Rightarrow> string \<Rightarrow> (dict, 'w) prog" where
  "scrape_event_details_try env event_url =
     and_then (requests_get env event_url headers) (\<lambda>response.
     and_then (check_status env response) (\<lambda>u.
     and_then (lift_sum (BeautifulSoup env (content env response) ''html.parser'')) (\<lambda>soup.
     lift_sum (extract_details soup))))"

text \<open>The f-string that the handler prints.\<close>

definition details_error_message :: "string \<Rightarrow> exn \<Rightarrow> string" where
  "details_error_message event_url e =
     ''Error scraping event details from '' @ event_url @ '': '' @ exn_str e"

text \<open>
  The \<open>try\<close> with its handler \<open>except Exception as e\<close>, which prints and then
  returns the error record.
\<close>

definition scrape_event_details :: "('w, 'r) env \<Rightarrow> string \<Rightarrow> (dict, 'w) prog" where
  "scrape_event_details env event_url =
     try_except (scrape_event_details_try env event_url)
       (\<lambda>e. and_then (py_print env (details_error_message event_url e)) (\<lambda>u.
          ret [(''title'', []),
               (''date'', []),
               (''start_time'', []),
               (''end_time'', []),
               (''book_link'', []),
               (''description'', ''Error: '' @ exn_str e)]))"

section \<open>\<open>scrape_all_event_details\<close>\<close>

text \<open>
  \<open>{'url': event['url'], 'scraped_at': event['scraped_at'], **details}\<close>.
\<close>

definition detailed_event :: "event_info \<Rightarrow> dict \<Rightarrow> dict" where
  "detailed_event event details =
     dict_update [(''url'', url event), (''scraped_at'', scraped_at event)] details"

text \<open>The f-string printed for the \<open>i\<close>-th of \<open>n\<close> events.\<close>

definition progress_message :: "nat \<Rightarrow> nat \<Rightarrow> event_info \<Rightarrow> string" where
  "progress_message i n event =
     ''Scraping details for event '' @ str_nat i @ ''/'' @ str_nat n @ '': '' @ title event"

text \<open>
  The loop over \<open>enumerate(events, 1)\<close>: \<open>n\<close> is \<open>len(events)\<close> of the whole list,
  \<open>i\<close> the number of the next event, \<open>detailed_events\<close> the list built so far.
\<close>

fun detail_loop ::
  "('w, 'r) env \<Rightarrow> nat \<Rightarrow> nat \<Rightarrow> event_info list \<Rightarrow> dict list \<Rightarrow> (dict list, 'w) prog" where
  "detail_loop env n i [] detailed_events w = (Inr detailed_events, w)"
| "detail_loop env n i (event # events) detailed_events w =
     (case py_print env (progress_message i n event) w of
        (Inl e, w1) \<Rightarrow> (Inl e, w1)
      | (Inr u, w1) \<Rightarrow>
          (case scrape_event_details env (url event) w1 of
             (Inl e, w2) \<Rightarrow> (Inl e, w2)
           | (Inr details, w2) \<Rightarrow>
               (let detailed_events = detailed_events @ [detailed_event event details];
                    w3 = time_sleep env 1 w2
                in detail_loop env n (Suc i) events detailed_events w3)))"

definition scrape_all_event_details ::
  "('w, 'r) env \<Rightarrow> event_info list \<Rightarrow> (dict list, 'w) prog" where
  "scrape_all_event_details env events = detail_loop env (length events) 1 events []"

section \<open>The script\<close>

text \<open>
  One \<open>json.dump\<close> into a file opened for writing: the path, the encoding given to
  \<open>open\<close>, the \<open>indent\<close> and \<open>ensure_ascii\<close> arguments, and the object written.  The
  rendering itself is the \<open>json\<close> library's, and the write is taken to succeed.
  The outcome of the script is the exception that ended it, if any, and the list of
  the writes it made, in order.
\<close>

record file_write =
  path :: string
  encoding :: string
  indent :: nat
  ensure_ascii :: bool
  payload :: "dict list"

text \<open>The strings that the script prints.\<close>

definition scraping_message :: "event_info list \<Rightarrow> string" where
  "scraping_message events =
     CHR 0x0A # ''Scraping detailed information for '' @ str_nat (length events) @ '' events...''"

definition saved_message :: string where
  "saved_message = ''Detailed events saved to runway_events_detailed.json''"

definition no_events_message :: string where
  "no_events_message = ''No events found to scrape details for.''"

definition main :: "('w, 'r) env \<Rightarrow> 'w \<Rightarrow> (exn option \<times> file_write list) \<times> 'w" where
  "main env w =
     (case scrape_runway_events env w of
        (Inl e, w1) \<Rightarrow> ((Some e, []), w1)
      | (Inr events, w1) \<Rightarrow>
          if events \<noteq> [] then
            (case py_print env (scraping_message events) w1 of
               (Inl e, w2) \<Rightarrow> ((Some e, []), w2)
             | (Inr u, w2) \<Rightarrow>
                 (case scrape_all_event_details env events w2 of
                    (Inl e, w3) \<Rightarrow> ((Some e, []), w3)
                  | (Inr detailed_events, w3) \<Rightarrow>
                      (let written = [\<lparr>path = ''runway_events_detailed.json'',
                                        encoding = ''utf-8'',
                                        indent = 2,
                                        ensure_ascii = False,
                                        payload = detailed_events\<rparr>]
                       in case py_print env saved_message w3 of
                            (Inl e, w4) \<Rightarrow> ((Some e, written), w4)
                          | (Inr u, w4) \<Rightarrow> ((None, written), w4))))
          else
            (case py_print env no_events_message w1 of
               (Inl e, w2) \<Rightarrow> ((Some e, []), w2)
             | (Inr u, w2) \<Rightarrow> ((None, []), w2)))"

section \<open>Readings of the specification\<close>

text \<open>
  The date rule in the specification's words: for a text with a comma, the
  substring after the first comma, without the space that follows the comma; a text
  with no comma unchanged.
\<close>

definition spec_date :: "string \<Rightarrow> string" where
  "spec_date t =
     (if CHR '','' \<in> set t
      then (let after = tl (dropWhile (\<lambda>c. c \<noteq> CHR '','') t)
            in if take 1 after = '' '' then tl after else after)
      else t)"

text \<open>"The anchor has an href": the attribute is present.\<close>

definition spec_has_href :: "element \<Rightarrow> bool" where
  "spec_has_href link = (attrs link ''href'' \<noteq> None)"

section \<open>A small site\<close>

text \<open>
  A listing page with two anchors, a fully populated page for the first event and
  an empty page for the second, and two more pages, \<open>event-c\<close> and \<open>event-d\<close>, that
  hold nothing but a date: \<open>Wednesday,August 6, 2025\<close> (no space after the first
  comma) and \<open>Aug 6,2025\<close> (no space after its only comma).  \<open>date_page\<close> is a
  detail page that holds nothing but a date element with the given text.  The
  world is the list of the clock readings still to come.  The results of the two
  fetches that the examples vary are parameters.

  The console of \<open>site\<close> prints everything; \<open>ascii_site\<close> is the same site on a
  console whose encoding is ASCII, where printing any other character raises, as
  Python's \<open>print\<close> does with \<open>UnicodeEncodeError\<close>.  \<open>refused\<close> is the text of a
  connection error in French, which has a character outside ASCII.
\<close>

definition site_listing :: soup where
  "site_listing css =
     (if css = ''div.eventlist.eventlist--upcoming > article.eventlist-event > a''
      then [\<lparr>strings = ['' Jazz Night  ''], attrs = [''href'' \<mapsto> ''/events2/event-a'']\<rparr>,
            \<lparr>strings = [],
             attrs = [''href'' \<mapsto> ''/events2/event-b'', ''title'' \<mapsto> ''Movie Night'']\<rparr>]
      else [])"

definition site_event_a :: soup where
  "site_event_a css =
     (if css = ''h1.eventitem-title''
      then [\<lparr>strings = [''Jazz on the Lawn''], attrs = Map.empty\<rparr>]
      else if css = ''time.event-date''
      then [\<lparr>strings = [''Wednesday, August 6, 2025''],
             attrs = [''datetime'' \<mapsto> ''2025-08-06'']\<rparr>]
      else if css = ''time.event-time-localized-start''
      then [\<lparr>strings = [''6:00 PM''], attrs = Map.empty\<rparr>]
      else if css = ''time.event-time-localized-end''
      then [\<lparr>strings = [''8:00 PM''], attrs = Map.empty\<rparr>]
      else if css =
        ''a.sqs-block-button-element--medium.sqs-button-element--primary.sqs-block-button-element''
      then [\<lparr>strings = [''RSVP''], attrs = [''href'' \<mapsto> ''https://example.com/rsvp'']\<rparr>]
      else if css = ''div.sqs-block.html-block.sqs-block-html''
      then [\<lparr>strings = [''Live  music'', '' on the lawn. ''], attrs = Map.empty\<rparr>]
      else [])"

definition site_event_b :: soup where
  "site_event_b css = []"

definition date_page :: "string \<Rightarrow> soup" where
  "date_page text css =
     (if css = ''time.event-date'' then [\<lparr>strings = [text], attrs = Map.empty\<rparr>] else [])"

definition site ::
  "exn + nat \<times> string \<Rightarrow> exn + nat \<times> string \<Rightarrow> (string list, nat \<times> string) env" where
  "site listing_result event_b_result =
     \<lparr>py_print = (\<lambda>s w. (Inr (), w)),
      requests_get = (\<lambda>u h w.
        (if u = ''https://www.runwayplayavista.com/events2'' then listing_result
         else if u = ''https://www.runwayplayavista.com//events2/event-a''
         then Inr (200, ''event-a'')
         else if u = ''https://www.runwayplayavista.com//events2/event-b''
         then event_b_result
         else if u = ''https://www.runwayplayavista.com//events2/event-c''
         then Inr (200, ''event-c'')
         else if u = ''https://www.runwayplayavista.com//events2/event-d''
         then Inr (200, ''event-d'')
         else Inr (404, ''not found''), w)),
      raise_for_status = (\<lambda>r.
        if 400 \<le> fst r \<and> fst r < 600 then Some (RequestException ''HTTP error'') else None),
      content = snd,
      BeautifulSoup = (\<lambda>body parser.
        if body = ''listing'' then Inr site_listing
        else if body = ''event-a'' then Inr site_event_a
        else if body = ''event-b'' then Inr site_event_b
        else if body = ''event-c'' then Inr (date_page ''Wednesday,August 6, 2025'')
        else if body = ''event-d'' then Inr (date_page ''Aug 6,2025'')
        else Inl (PyException ''cannot parse'')),
      datetime_now_isoformat = (\<lambda>w.
        case w of [] \<Rightarrow> (''2025-08-01T09:00:00'', []) | t # ts \<Rightarrow> (t, ts)),
      time_sleep = (\<lambda>n w. w)\<rparr>"

definition refused :: string where
  "refused = ''Connexion refus'' @ [CHR 0xE9] @ ''e''"

definition clock :: "string list" where
  "clock = [''2025-08-01T09:00:01'', ''2025-08-01T09:00:02'']"

definition ascii_console :: "string \<Rightarrow> (unit, 'w) prog" where
  "ascii_console s w =
     (if list_ex (\<lambda>c. 128 \<le> (of_char c :: nat)) s
      then Inl (PyException ''ascii codec cannot encode character'')
      else Inr (), w)"

definition ascii_site ::
  "exn + nat \<times> string \<Rightarrow> exn + nat \<times> string \<Rightarrow> (string list, nat \<times> string) env" where
  "ascii_site listing_result event_b_result =
     (site listing_result event_b_result)\<lparr>py_print := ascii_console\<rparr>"

section \<open>Facts about the string functions\<close>

lemma is_space_blank: "is_space (CHR '' '')"
  by (simp add: is_space_def)

lemma collapse_ws_head:
  "s = [] \<or> \<not> is_space (hd s) \<Longrightarrow> collapse_ws s = [] \<or> \<not> is_space (hd (collapse_ws s))"
  by (cases s) auto

lemma dropWhile_collapse_ws:
  "dropWhile is_space (collapse_ws (dropWhile is_space cs)) = collapse_ws (dropWhile is_space cs)"
proof -
  have "dropWhile is_space cs = [] \<or> \<not> is_space (hd (dropWhile is_space cs))"
    using hd_dropWhile [of is_space cs] by blast
  then have "collapse_ws (dropWhile is_space cs) = []
      \<or> \<not> is_space (hd (collapse_ws (dropWhile is_space cs)))"
    by (rule collapse_ws_head)
  then show ?thesis
    by (simp add: dropWhile_eq_self_iff)
qed

lemma find_sep_none:
  "sep \<noteq> [] \<Longrightarrow> \<forall>a b. t \<noteq> a @ sep @ b \<Longrightarrow> find_sep sep t = None"
proof (induction t)
  case Nil
  show ?case by simp
next
  case (Cons c cs)
  have "take (length sep) (c # cs) \<noteq> sep"
  proof
    assume h: "take (length sep) (c # cs) = sep"
    have "c # cs = [] @ take (length sep) (c # cs) @ drop (length sep) (c # cs)"
      by simp
    with h have "c # cs = [] @ sep @ drop (length sep) (c # cs)" by simp
    with Cons.prems(2) show False by blast
  qed
  moreover have "\<forall>a b. cs \<noteq> a @ sep @ b"
  proof (intro allI notI)
    fix a b assume "cs = a @ sep @ b"
    then have "c # cs = (c # a) @ sep @ b" by simp
    with Cons.prems(2) show False by blast
  qed
  ultimately show ?case
    using Cons.IH [OF Cons.prems(1)] by simp
qed

lemma find_sep_first:
  "sep \<noteq> [] \<Longrightarrow> \<forall>a b. pre @ butlast sep \<noteq> a @ sep @ b
    \<Longrightarrow> find_sep sep (pre @ sep @ rest) = Some (pre, rest)"
proof (induction pre)
  case Nil
  then obtain c cs where "sep = c # cs" by (cases sep) auto
  then show ?case by simp
next
  case (Cons p ps)
  let ?x = "(p # ps) @ butlast sep"
  have len: "length sep \<le> length ?x" by simp
  have "take (length sep) ((p # ps) @ sep @ rest) \<noteq> sep"
  proof
    assume h: "take (length sep) ((p # ps) @ sep @ rest) = sep"
    have "(p # ps) @ sep @ rest = ?x @ ([last sep] @ rest)"
      using Cons.prems(1) by simp
    then have "take (length sep) ((p # ps) @ sep @ rest)
        = take (length sep) (?x @ ([last sep] @ rest))"
      by (rule arg_cong)
    also have "\<dots> = take (length sep) ?x"
      using len by (simp only: take_append diff_is_0_eq [THEN iffD2] take_0 append_Nil2)
    finally have "take (length sep) ((p # ps) @ sep @ rest) = take (length sep) ?x" .
    with h have "take (length sep) ?x = sep" by simp
    then have "?x = [] @ sep @ drop (length sep) ?x"
      by (metis append_Nil append_take_drop_id)
    with Cons.prems(2) show False by blast
  qed
  moreover have "\<forall>a b. ps @ butlast sep \<noteq> a @ sep @ b"
  proof (intro allI notI)
    fix a b assume "ps @ butlast sep = a @ sep @ b"
    then have "(p # ps) @ butlast sep = (p # a) @ sep @ b" by simp
    with Cons.prems(2) show False by blast
  qed
  ultimately show ?case
    using Cons.IH [OF Cons.prems(1)] by simp
qed

section \<open>Facts about the detail extractor\<close>

lemma py_split1_comma_space:
  "py_split1 t '', '' = Inr (case find_sep '', '' t of None \<Rightarrow> [t] | Some (a, b) \<Rightarrow> [a, b])"
  by (simp add: py_split1_def split: option.split)

lemma date_of_text_eq:
  "date_of_text t = Inr (case find_sep '', '' t of None \<Rightarrow> t | Some (a, b) \<Rightarrow> b)"
  by (simp add: date_of_text_def py_split1_comma_space split: option.split)

lemma details_title_eq:
  "details_title soup [] =
     [(''title'', case select_one soup ''h1.eventitem-title'' of
                    Some el \<Rightarrow> get_text [] el | None \<Rightarrow> ''No title found'')]"
  by (simp add: details_title_def)

lemma details_date_eq:
  "details_date soup [(''title'', t)] =
     Inr [(''title'', t),
          (''date'', case select_one soup ''time.event-date'' of
                       Some el \<Rightarrow> (case find_sep '', '' (get_text [] el) of
                                     None \<Rightarrow> get_text [] el | Some (a, b) \<Rightarrow> b)
                     | None \<Rightarrow> ''No date found''),
          (''date_datetime'', case select_one soup ''time.event-date'' of
                       Some el \<Rightarrow> get_or el ''datetime'' [] | None \<Rightarrow> [])]"
  by (simp add: details_date_def date_of_text_eq split: option.split)

lemma details_start_time_eq:
  "details_start_time soup [(''title'', t), (''date'', d), (''date_datetime'', dd)] =
     [(''title'', t), (''date'', d), (''date_datetime'', dd),
      (''start_time'', case select_one soup ''time.event-time-localized-start'' of
                         Some el \<Rightarrow> get_text [] el | None \<Rightarrow> ''No start time found'')]"
  by (simp add: details_start_time_def)

lemma details_end_time_eq:
  "details_end_time soup [(''title'', t), (''date'', d), (''date_datetime'', dd), (''start_time'', s)] =
     [(''title'', t), (''date'', d), (''date_datetime'', dd), (''start_time'', s),
      (''end_time'', case select_one soup ''time.event-time-localized-end'' of
                         Some el \<Rightarrow> get_text [] el | None \<Rightarrow> ''No end time found'')]"
  by (simp add: details_end_time_def)

lemma details_book_link_eq:
  "details_book_link soup
     [(''title'', t), (''date'', d), (''date_datetime'', dd), (''start_time'', s), (''end_time'', e)] =
     [(''title'', t), (''date'', d), (''date_datetime'', dd), (''start_time'', s), (''end_time'', e),
      (''book_link'', case select_one soup
             ''a.sqs-block-button-element--medium.sqs-button-element--primary.sqs-block-button-element'' of
                         Some el \<Rightarrow> get_or el ''href'' [] | None \<Rightarrow> []),
      (''book_link_text'', case select_one soup
             ''a.sqs-block-button-element--medium.sqs-button-element--primary.sqs-block-button-element'' of
                         Some el \<Rightarrow> get_text [] el | None \<Rightarrow> [])]"
  by (simp add: details_book_link_def split: option.split)

lemma details_description_eq:
  "details_description soup
     [(''title'', t), (''date'', d), (''date_datetime'', dd), (''start_time'', s), (''end_time'', e),
      (''book_link'', b), (''book_link_text'', bt)] =
     [(''title'', t), (''date'', d), (''date_datetime'', dd), (''start_time'', s), (''end_time'', e),
      (''book_link'', b), (''book_link_text'', bt),
      (''description'', case select_one soup ''div.sqs-block.html-block.sqs-block-html'' of
                         Some el \<Rightarrow> collapse_ws (get_text '' '' el)
                       | None \<Rightarrow> ''No description found'')]"
  by (simp add: details_description_def split: option.split)

lemma extract_details_eq:
  "extract_details soup =
     Inr [(''title'', case select_one soup ''h1.eventitem-title'' of
                    Some el \<Rightarrow> get_text [] el | None \<Rightarrow> ''No title found''),
          (''date'', case select_one soup ''time.event-date'' of
                       Some el \<Rightarrow> (case find_sep '', '' (get_text [] el) of
                                     None \<Rightarrow> get_text [] el | Some (a, b) \<Rightarrow> b)
                     | None \<Rightarrow> ''No date found''),
          (''date_datetime'', case select_one soup ''time.event-date'' of
                       Some el \<Rightarrow> get_or el ''datetime'' [] | None \<Rightarrow> []),
          (''start_time'', case select_one soup ''time.event-time-localized-start'' of
                         Some el \<Rightarrow> get_text [] el | None \<Rightarrow> ''No start time found''),
          (''end_time'', case select_one soup ''time.event-time-localized-end'' of
                         Some el \<Rightarrow> get_text [] el | None \<Rightarrow> ''No end time found''),
          (''book_link'', case select_one soup
             ''a.sqs-block-button-element--medium.sqs-button-element--primary.sqs-block-button-element'' of
                         Some el \<Rightarrow> get_or el ''href'' [] | None \<Rightarrow> []),
          (''book_link_text'', case select_one soup
             ''a.sqs-block-button-element--medium.sqs-button-element--primary.sqs-block-button-element'' of
                         Some el \<Rightarrow> get_text [] el | None \<Rightarrow> []),
          (''description'', case select_one soup ''div.sqs-block.html-block.sqs-block-html'' of
                         Some el \<Rightarrow> collapse_ws (get_text '' '' el)
                       | None \<Rightarrow> ''No description found'')]"
  unfolding extract_details_def Let_def details_title_eq details_date_eq sum.case
    details_start_time_eq details_end_time_eq details_book_link_eq details_description_eq
  by (rule refl)

section \<open>Facts about the date rule\<close>

text \<open>
  Where the code and the rule in the specification's words agree: on a text whose
  first comma is followed by a space, and on a text without a comma.
\<close>

lemma comma_space_not_before:
  "CHR '','' \<notin> set pre \<Longrightarrow> \<forall>a b. pre @ '','' \<noteq> a @ '', '' @ b"
proof (intro allI notI)
  fix a b
  assume no: "CHR '','' \<notin> set pre" and eq: "pre @ '','' = a @ '', '' @ b"
  from eq have "butlast (pre @ '','') = butlast (a @ '', '' @ b)" by (rule arg_cong)
  then have "pre = a @ CHR '','' # butlast (CHR '' '' # b)"
    by (simp add: butlast_append)
  with no show False by auto
qed

lemma no_comma_no_sep:
  "CHR '','' \<notin> set t \<Longrightarrow> \<forall>a b. t \<noteq> a @ '', '' @ b"
  by auto

lemma spec_date_first_comma:
  assumes "CHR '','' \<notin> set pre"
  shows "spec_date (pre @ '', '' @ rest) = rest"
proof -
  have "dropWhile (\<lambda>c. c \<noteq> CHR '','') pre = []"
    using assms by auto
  then show ?thesis
    by (simp add: spec_date_def dropWhile_append3)
qed

lemma date_of_text_comma_space:
  "(\<forall>pre rest. t = pre @ '', '' @ rest \<and> (\<forall>a b. pre @ '','' \<noteq> a @ '', '' @ b)
      \<longrightarrow> date_of_text t = Inr rest)
   \<and> (\<forall>pre rest. t = pre @ '', '' @ rest \<and> CHR '','' \<notin> set pre
      \<longrightarrow> date_of_text t = Inr rest \<and> spec_date t = rest)
   \<and> ((\<forall>a b. t \<noteq> a @ '', '' @ b) \<longrightarrow> date_of_text t = Inr t)
   \<and> (CHR '','' \<notin> set t \<longrightarrow> date_of_text t = Inr t \<and> spec_date t = t)"
proof -
  have first: "date_of_text (pre @ '', '' @ rest) = Inr rest"
    if "\<forall>a b. pre @ '','' \<noteq> a @ '', '' @ b" for pre rest
  proof -
    from that have "\<forall>a b. pre @ butlast '', '' \<noteq> a @ '', '' @ b" by simp
    then have "find_sep '', '' (pre @ '', '' @ rest) = Some (pre, rest)"
      by (intro find_sep_first) simp_all
    then show ?thesis by (simp add: date_of_text_eq)
  qed
  have none: "date_of_text t = Inr t" if "\<forall>a b. t \<noteq> a @ '', '' @ b"
  proof -
    from that have "find_sep '', '' t = None"
      by (intro find_sep_none) simp_all
    then show ?thesis by (simp add: date_of_text_eq)
  qed
  show ?thesis
    using first none comma_space_not_before no_comma_no_sep spec_date_first_comma
    by (auto simp: spec_date_def)
qed

section \<open>Facts about the effects\<close>

lemmas prog_defs = ret_def raise_exn_def lift_sum_def and_then_def try_except_def check_status_def

lemma str_nat_digit: "n < 10 \<Longrightarrow> str_nat n = [''0123456789'' ! n]"
  by (simp add: str_nat.simps)

section \<open>Facts about \<open>scrape_event_details\<close>\<close>

lemma scrape_event_details_try_cases:
  "(\<exists>e. fst (scrape_event_details_try env u w) = Inl e) \<or>
   (\<exists>soup. fst (scrape_event_details_try env u w) = extract_details soup)"
  by (auto simp: scrape_event_details_try_def prog_defs split: prod.split sum.split option.split)

lemma scrape_event_details_try_page:
  "requests_get env event_url headers w = (Inr r, w1) \<Longrightarrow>
   raise_for_status env r = None \<Longrightarrow>
   BeautifulSoup env (content env r) ''html.parser'' = Inr soup \<Longrightarrow>
   scrape_event_details_try env event_url w = (extract_details soup, w1)"
  by (simp add: scrape_event_details_try_def prog_defs)

lemma scrape_event_details_success:
  "scrape_event_details_try env u w = (Inr d, w1) \<Longrightarrow>
   scrape_event_details env u w = (Inr d, w1)"
  by (simp add: scrape_event_details_def prog_defs)

lemma scrape_event_details_failure:
  "scrape_event_details_try env u w = (Inl e, w1) \<Longrightarrow>
   scrape_event_details env u w =
     (case py_print env (details_error_message u e) w1 of
        (Inl e', w2) \<Rightarrow> (Inl e', w2)
      | (Inr v, w2) \<Rightarrow>
          (Inr [(''title'', []), (''date'', []), (''start_time'', []), (''end_time'', []),
                (''book_link'', []), (''description'', ''Error: '' @ exn_str e)], w2))"
  by (simp add: scrape_event_details_def prog_defs split: prod.split sum.split)

lemma scrape_event_details_returned:
  assumes "scrape_event_details env u w = (Inr d, w')"
  shows "(\<exists>e. fst (scrape_event_details_try env u w) = Inl e
            \<and> d = [(''title'', []), (''date'', []), (''start_time'', []), (''end_time'', []),
                   (''book_link'', []), (''description'', ''Error: '' @ exn_str e)])
         \<or> (\<exists>soup. fst (scrape_event_details_try env u w) = Inr d
              \<and> extract_details soup = Inr d)"
proof (cases "scrape_event_details_try env u w")
  case (Pair r w1)
  show ?thesis
  proof (cases r)
    case (Inl e)
    with Pair have t: "scrape_event_details_try env u w = (Inl e, w1)" by simp
    from assms have "d = [(''title'', []), (''date'', []), (''start_time'', []),
        (''end_time'', []), (''book_link'', []), (''description'', ''Error: '' @ exn_str e)]"
      unfolding scrape_event_details_failure [OF t]
      by (simp split: prod.splits sum.splits)
    with t show ?thesis by simp
  next
    case (Inr d')
    with Pair have t: "scrape_event_details_try env u w = (Inr d', w1)" by simp
    from assms have d: "d' = d"
      unfolding scrape_event_details_success [OF t] by simp
    from scrape_event_details_try_cases [of env u w] t
    obtain soup where "extract_details soup = Inr d'" by auto
    with t d show ?thesis by auto
  qed
qed

lemma dict_update_fresh8:
  "dict_update [(''url'', u), (''scraped_at'', s)]
     [(''title'', a), (''date'', b), (''date_datetime'', c), (''start_time'', d),
      (''end_time'', e), (''book_link'', f), (''book_link_text'', g), (''description'', h)] =
   [(''url'', u), (''scraped_at'', s),
    (''title'', a), (''date'', b), (''date_datetime'', c), (''start_time'', d),
    (''end_time'', e), (''book_link'', f), (''book_link_text'', g), (''description'', h)]"
  by simp

lemma dict_update_fresh6:
  "dict_update [(''url'', u), (''scraped_at'', s)]
     [(''title'', a), (''date'', b), (''start_time'', d),
      (''end_time'', e), (''book_link'', f), (''description'', h)] =
   [(''url'', u), (''scraped_at'', s),
    (''title'', a), (''date'', b), (''start_time'', d),
    (''end_time'', e), (''book_link'', f), (''description'', h)]"
  by simp

lemma detailed_event_extracted:
  "extract_details soup = Inr d \<Longrightarrow>
   detailed_event event d = (''url'', url event) # (''scraped_at'', scraped_at event) # d"
  unfolding extract_details_eq detailed_event_def
  by (erule Inr_inject [THEN subst]) (simp only: dict_update_fresh8)

lemma detailed_event_returned:
  assumes "scrape_event_details env u w = (Inr d, w')"
  shows "detailed_event event d = (''url'', url event) # (''scraped_at'', scraped_at event) # d"
proof -
  from scrape_event_details_returned [OF assms]
  consider e where "d = [(''title'', []), (''date'', []), (''start_time'', []),
        (''end_time'', []), (''book_link'', []), (''description'', ''Error: '' @ exn_str e)]"
    | soup where "extract_details soup = Inr d"
    by blast
  then show ?thesis
  proof cases
    case 1
    show ?thesis
      unfolding 1 detailed_event_def dict_update_fresh6 by (rule refl)
  next
    case 2
    then show ?thesis by (rule detailed_event_extracted)
  qed
qed

lemma extracted_title_present:
  "extract_details soup = Inr d \<Longrightarrow> \<exists>t. dict_get d ''title'' = Some t"
  unfolding extract_details_eq dict_get_def
  by (erule Inr_inject [THEN subst]) simp

lemma details_title_present:
  assumes "scrape_event_details env u w = (Inr d, w')"
  shows "\<exists>t. dict_get d ''title'' = Some t"
proof -
  from scrape_event_details_returned [OF assms]
  consider e where "d = [(''title'', []), (''date'', []), (''start_time'', []),
        (''end_time'', []), (''book_link'', []), (''description'', ''Error: '' @ exn_str e)]"
    | soup where "extract_details soup = Inr d"
    by blast
  then show ?thesis
  proof cases
    case 1
    show ?thesis unfolding 1 dict_get_def by simp
  next
    case 2
    then show ?thesis by (rule extracted_title_present)
  qed
qed

section \<open>Facts about the orchestrator\<close>

lemma detail_loop_acc:
  "detail_loop env n i events acc w =
     (case detail_loop env n i events [] w of
        (Inl e, w') \<Rightarrow> (Inl e, w')
      | (Inr out, w') \<Rightarrow> (Inr (acc @ out), w'))"
proof (induction events arbitrary: acc i w)
  case Nil
  show ?case by simp
next
  case (Cons ev evs)
  obtain p w1 where p: "py_print env (progress_message i n ev) w = (p, w1)"
    by (cases "py_print env (progress_message i n ev) w")
  show ?case
  proof (cases p)
    case (Inl e)
    with p show ?thesis by simp
  next
    case (Inr u)
    obtain r w2 where r: "scrape_event_details env (url ev) w1 = (r, w2)"
      by (cases "scrape_event_details env (url ev) w1")
    show ?thesis
    proof (cases r)
      case (Inl e)
      with p r \<open>p = Inr u\<close> show ?thesis by simp
    next
      case (Inr details)
      let ?x = "detailed_event ev details"
      let ?w3 = "time_sleep env 1 w2"
      have a: "detail_loop env n i (ev # evs) acc w
          = detail_loop env n (Suc i) evs (acc @ [?x]) ?w3"
        using p r \<open>p = Inr u\<close> Inr by simp
      have b: "detail_loop env n i (ev # evs) [] w = detail_loop env n (Suc i) evs [?x] ?w3"
        using p r \<open>p = Inr u\<close> Inr by simp
      have c: "detail_loop env n (Suc i) evs (acc @ [?x]) ?w3 =
          (case detail_loop env n (Suc i) evs [] ?w3 of
             (Inl e, w') \<Rightarrow> (Inl e, w')
           | (Inr out, w') \<Rightarrow> (Inr ((acc @ [?x]) @ out), w'))"
        by (rule Cons.IH)
      have d: "detail_loop env n (Suc i) evs [?x] ?w3 =
          (case detail_loop env n (Suc i) evs [] ?w3 of
             (Inl e, w') \<Rightarrow> (Inl e, w')
           | (Inr out, w') \<Rightarrow> (Inr ([?x] @ out), w'))"
        by (rule Cons.IH)
      show ?thesis
        unfolding a b c d by (simp split: prod.split sum.split)
    qed
  qed
qed

lemma detail_loop_step:
  "detail_loop env n i (event # events) [] w =
     (case py_print env (progress_message i n event) w of
        (Inl e, w1) \<Rightarrow> (Inl e, w1)
      | (Inr u, w1) \<Rightarrow>
          (case scrape_event_details env (url event) w1 of
             (Inl e, w2) \<Rightarrow> (Inl e, w2)
           | (Inr details, w2) \<Rightarrow>
               (case detail_loop env n (Suc i) events [] (time_sleep env 1 w2) of
                  (Inl e, w') \<Rightarrow> (Inl e, w')
                | (Inr out, w') \<Rightarrow> (Inr (detailed_event event details # out), w'))))"
proof -
  have "detail_loop env n (Suc i) events [x] w3 =
      (case detail_loop env n (Suc i) events [] w3 of
         (Inl e, w') \<Rightarrow> (Inl e, w')
       | (Inr out, w') \<Rightarrow> (Inr (x # out), w'))" for x w3
    by (subst detail_loop_acc) (simp split: prod.split sum.split)
  then show ?thesis
    by (simp add: Let_def split: prod.split sum.split)
qed

lemma detail_loop_returned:
  assumes "detail_loop env n i (event # events) [] w = (Inr out, w')"
  shows "\<exists>u w1 details w2 rest.
      py_print env (progress_message i n event) w = (Inr u, w1)
      \<and> scrape_event_details env (url event) w1 = (Inr details, w2)
      \<and> detail_loop env n (Suc i) events [] (time_sleep env 1 w2) = (Inr rest, w')
      \<and> out = detailed_event event details # rest"
  using assms unfolding detail_loop_step
  by (auto split: prod.splits sum.splits)

lemma detail_loop_length:
  "detail_loop env n i events [] w = (Inr out, w') \<Longrightarrow> length out = length events"
proof (induction events arbitrary: i w out)
  case Nil
  then show ?case by simp
next
  case (Cons ev evs)
  from detail_loop_returned [OF Cons.prems]
  obtain w2 details rest where
    "detail_loop env n (Suc i) evs [] (time_sleep env 1 w2) = (Inr rest, w')"
    "out = detailed_event ev details # rest"
    by blast
  with Cons.IH show ?case by simp
qed

lemma detail_loop_nth:
  "detail_loop env n i events [] w = (Inr out, w') \<Longrightarrow> j < length events \<Longrightarrow>
   \<exists>wj u wj' details wj''.
      detail_loop env n i (take j events) [] w = (Inr (take j out), wj)
      \<and> py_print env (progress_message (i + j) n (events ! j)) wj = (Inr u, wj')
      \<and> scrape_event_details env (url (events ! j)) wj' = (Inr details, wj'')
      \<and> out ! j = detailed_event (events ! j) details"
proof (induction events arbitrary: i w out j)
  case Nil
  then show ?case by simp
next
  case (Cons ev evs)
  from detail_loop_returned [OF Cons.prems(1)]
  obtain u w1 details w2 rest where
    p: "py_print env (progress_message i n ev) w = (Inr u, w1)"
    and s: "scrape_event_details env (url ev) w1 = (Inr details, w2)"
    and r: "detail_loop env n (Suc i) evs [] (time_sleep env 1 w2) = (Inr rest, w')"
    and o: "out = detailed_event ev details # rest"
    by blast
  show ?case
  proof (cases j)
    case 0
    with p s o show ?thesis by simp
  next
    case (Suc k)
    with Cons.prems(2) have k: "k < length evs" by simp
    from Cons.IH [OF r k]
    obtain wk u' wk' details' wk'' where
      a: "detail_loop env n (Suc i) (take k evs) [] (time_sleep env 1 w2) = (Inr (take k rest), wk)"
      and b: "py_print env (progress_message (Suc i + k) n (evs ! k)) wk = (Inr u', wk')"
      and c: "scrape_event_details env (url (evs ! k)) wk' = (Inr details', wk'')"
      and d: "rest ! k = detailed_event (evs ! k) details'"
      by blast
    have "detail_loop env n i (take j (ev # evs)) [] w = (Inr (take j out), wk)"
      unfolding Suc o
      by (simp only: take_Suc_Cons detail_loop_step p s a prod.case sum.case)
    with b c d show ?thesis
      unfolding Suc o by simp
  qed
qed

lemma scrape_event_details_total:
  assumes "\<forall>s w. fst (py_print env s w) = Inr ()"
  shows "\<exists>d w'. scrape_event_details env u w = (Inr d, w')"
proof (cases "scrape_event_details_try env u w")
  case (Pair r w1)
  show ?thesis
  proof (cases r)
    case (Inl e)
    obtain p w2 where p: "py_print env (details_error_message u e) w1 = (p, w2)"
      by (cases "py_print env (details_error_message u e) w1")
    with assms [rule_format, of "details_error_message u e" w1] have "p = Inr ()" by simp
    with p Pair Inl show ?thesis
      by (simp add: scrape_event_details_failure)
  next
    case (Inr d)
    with Pair show ?thesis
      by (simp add: scrape_event_details_success)
  qed
qed

lemma detail_loop_total:
  assumes "\<forall>s w. fst (py_print env s w) = Inr ()"
  shows "\<exists>out w'. detail_loop env n i events acc w = (Inr out, w')"
proof (induction events arbitrary: i acc w)
  case Nil
  show ?case by simp
next
  case (Cons ev evs)
  obtain p w1 where p: "py_print env (progress_message i n ev) w = (p, w1)"
    by (cases "py_print env (progress_message i n ev) w")
  with assms [rule_format, of "progress_message i n ev" w] have pu: "p = Inr ()" by simp
  from scrape_event_details_total [OF assms, of "url ev" w1]
  obtain d w2 where s: "scrape_event_details env (url ev) w1 = (Inr d, w2)" by blast
  from Cons.IH [of "Suc i" "acc @ [detailed_event ev d]" "time_sleep env 1 w2"]
  show ?case
    by (simp add: p pu s)
qed

lemma detailed_event_title:
  "detailed_event (title_update f event) details = detailed_event event details"
  by (simp add: detailed_event_def)

lemma detail_loop_title:
  assumes "\<forall>s s' w. py_print env s w = py_print env s' w"
  shows "detail_loop env n i (map (title_update f) events) acc w
    = detail_loop env n i events acc w"
proof (induction events arbitrary: i acc w)
  case Nil
  show ?case by simp
next
  case (Cons ev evs)
  have "py_print env (progress_message i n (title_update f ev)) w
      = py_print env (progress_message i n ev) w"
    using assms by blast
  then show ?case
    by (simp add: Cons.IH detailed_event_title split: prod.split sum.split)
qed

lemma list_of_two: "length xs = 2 \<Longrightarrow> xs = [xs ! 0, xs ! 1]"
  by (cases xs; cases "tl xs") auto

section \<open>Facts about the listing harvester\<close>

lemma harvest_links_acc:
  "harvest_links env links acc w =
     (case harvest_links env links [] w of
        (Inl e, w') \<Rightarrow> (Inl e, w')
      | (Inr out, w') \<Rightarrow> (Inr (acc @ out), w'))"
proof (induction links arbitrary: acc w)
  case Nil
  show ?case by simp
next
  case (Cons link links)
  show ?case
  proof (cases "attrs link ''href'' = None \<or> attrs link ''href'' = Some []")
    case True
    then have "harvest_links env (link # links) acc w = harvest_links env links acc w"
      and "harvest_links env (link # links) [] w = harvest_links env links [] w"
      by auto
    then show ?thesis
      using Cons.IH [of acc w] by simp
  next
    case False
    then obtain href where h: "attrs link ''href'' = Some href" "href \<noteq> []"
      by auto
    obtain stamp w1 where n: "datetime_now_isoformat env w = (stamp, w1)"
      by (cases "datetime_now_isoformat env w")
    define title_v where "title_v = (if get_text [] link \<noteq> [] then get_text [] link
                                      else get_or link ''title'' ''No title'')"
    define ev where "ev = \<lparr>title = title_v,
                            url = ''https://www.runwayplayavista.com/'' @ href,
                            scraped_at = stamp\<rparr>"
    obtain p w2 where p: "py_print env (found_message title_v href) w1 = (p, w2)"
      by (cases "py_print env (found_message title_v href) w1")
    show ?thesis
    proof (cases p)
      case (Inl e)
      with h n p show ?thesis
        by (simp add: Let_def title_v_def)
    next
      case (Inr u)
      have a: "harvest_links env (link # links) acc w = harvest_links env links (acc @ [ev]) w2"
        using h n p Inr by (simp add: Let_def title_v_def ev_def)
      have b: "harvest_links env (link # links) [] w = harvest_links env links [ev] w2"
        using h n p Inr by (simp add: Let_def title_v_def ev_def)
      have c: "harvest_links env links (acc @ [ev]) w2 =
          (case harvest_links env links [] w2 of
             (Inl e, w') \<Rightarrow> (Inl e, w')
           | (Inr out, w') \<Rightarrow> (Inr ((acc @ [ev]) @ out), w'))"
        by (rule Cons.IH)
      have d: "harvest_links env links [ev] w2 =
          (case harvest_links env links [] w2 of
             (Inl e, w') \<Rightarrow> (Inl e, w')
           | (Inr out, w') \<Rightarrow> (Inr ([ev] @ out), w'))"
        by (rule Cons.IH)
      show ?thesis
        unfolding a b c d by (simp split: prod.split sum.split)
    qed
  qed
qed

lemma harvest_single_skip:
  "attrs link ''href'' = None \<or> attrs link ''href'' = Some [] \<Longrightarrow>
   harvest_links env [link] [] w = (Inr [], w)"
  by auto

lemma harvest_single_emit:
  "attrs link ''href'' = Some href \<Longrightarrow> href \<noteq> [] \<Longrightarrow>
   harvest_links env [link] [] w =
     (case py_print env
             (found_message
                (if get_text [] link \<noteq> [] then get_text [] link
                 else get_or link ''title'' ''No title'') href)
             (snd (datetime_now_isoformat env w)) of
        (Inl e, w2) \<Rightarrow> (Inl e, w2)
      | (Inr u, w2) \<Rightarrow>
          (Inr [\<lparr>title = (if get_text [] link \<noteq> [] then get_text [] link
                          else get_or link ''title'' ''No title''),
                url = ''https://www.runwayplayavista.com/'' @ href,
                scraped_at = fst (datetime_now_isoformat env w)\<rparr>], w2))"
  by (simp add: Let_def split: prod.split sum.split)

lemma harvest_links_Cons:
  "harvest_links env (link # links) [] w =
     (case harvest_links env [link] [] w of
        (Inl e, w1) \<Rightarrow> (Inl e, w1)
      | (Inr evs, w1) \<Rightarrow>
          (case harvest_links env links [] w1 of
             (Inl e, w2) \<Rightarrow> (Inl e, w2)
           | (Inr rest, w2) \<Rightarrow> (Inr (evs @ rest), w2)))"
proof (cases "attrs link ''href'' = None \<or> attrs link ''href'' = Some []")
  case True
  then have "harvest_links env (link # links) [] w = harvest_links env links [] w"
    by auto
  then show ?thesis
    unfolding harvest_single_skip [OF True]
    by (simp split: prod.split sum.split)
next
  case False
  then obtain href where h: "attrs link ''href'' = Some href" "href \<noteq> []"
    by auto
  have acc: "harvest_links env links [x] w2 =
      (case harvest_links env links [] w2 of
         (Inl e, w') \<Rightarrow> (Inl e, w')
       | (Inr out, w') \<Rightarrow> (Inr ([x] @ out), w'))" for x w2
    by (rule harvest_links_acc)
  show ?thesis
    unfolding harvest_single_emit [OF h]
    by (simp add: h Let_def acc split: prod.split sum.split)
qed

lemma harvest_links_urls:
  "harvest_links env links [] w = (Inr events, w') \<Longrightarrow>
   map url events =
     map (\<lambda>href. ''https://www.runwayplayavista.com/'' @ href)
       (filter (\<lambda>href. href \<noteq> []) (List.map_filter (\<lambda>link. attrs link ''href'') links))"
proof (induction links arbitrary: w events)
  case Nil
  then show ?case by (simp add: map_filter_simps)
next
  case (Cons link links)
  show ?case
  proof (cases "attrs link ''href'' = None \<or> attrs link ''href'' = Some []")
    case True
    from Cons.prems have "harvest_links env links [] w = (Inr events, w')"
      unfolding harvest_links_Cons [of env link links w] harvest_single_skip [OF True]
      by (simp split: prod.splits sum.splits)
    from Cons.IH [OF this] show ?thesis
      using True by (auto simp: map_filter_simps)
  next
    case False
    then obtain href where h: "attrs link ''href'' = Some href" "href \<noteq> []"
      by auto
    define ev where "ev = \<lparr>title = (if get_text [] link \<noteq> [] then get_text [] link
                                        else get_or link ''title'' ''No title''),
                            url = ''https://www.runwayplayavista.com/'' @ href,
                            scraped_at = fst (datetime_now_isoformat env w)\<rparr>"
    have e: "url ev = ''https://www.runwayplayavista.com/'' @ href"
      by (simp add: ev_def)
    from Cons.prems have "\<exists>w1 rest. harvest_links env links [] w1 = (Inr rest, w')
        \<and> events = ev # rest"
      unfolding harvest_links_Cons [of env link links w] harvest_single_emit [OF h]
        ev_def [symmetric]
      by (auto split: prod.splits sum.splits)
    then obtain w1 rest where r: "harvest_links env links [] w1 = (Inr rest, w')"
      and o: "events = ev # rest"
      by blast
    from Cons.IH [OF r] show ?thesis
      using h e o by (simp add: map_filter_simps)
  qed
qed

lemma harvest_links_total:
  assumes "\<forall>s w. fst (py_print env s w) = Inr ()"
  shows "\<exists>out w'. harvest_links env links acc w = (Inr out, w')"
proof (induction links arbitrary: acc w)
  case Nil
  show ?case by simp
next
  case (Cons link links)
  show ?case
  proof (cases "attrs link ''href'' = None \<or> attrs link ''href'' = Some []")
    case True
    then have "harvest_links env (link # links) acc w = harvest_links env links acc w"
      by auto
    with Cons.IH show ?thesis by simp
  next
    case False
    then obtain href where h: "attrs link ''href'' = Some href" "href \<noteq> []"
      by auto
    obtain stamp w1 where n: "datetime_now_isoformat env w = (stamp, w1)"
      by (cases "datetime_now_isoformat env w")
    define title_v where "title_v = (if get_text [] link \<noteq> [] then get_text [] link
                                      else get_or link ''title'' ''No title'')"
    obtain p w2 where p: "py_print env (found_message title_v href) w1 = (p, w2)"
      by (cases "py_print env (found_message title_v href) w1")
    with assms [rule_format, of "found_message title_v href" w1] have "p = Inr ()" by simp
    with h n p Cons.IH show ?thesis
      by (simp add: Let_def title_v_def)
  qed
qed

lemma title_of_single:
  "\<exists>ev. fst r = Inr [ev] \<and> title ev = t \<Longrightarrow> map_sum id (map title) (fst r) = Inr [t]"
  by auto

lemma scrape_runway_events_try_returned:
  assumes "scrape_runway_events_try env w = (Inr events, w')"
  shows "\<exists>u w0 r w1 soup w2 u'.
      py_print env fetching_message w = (Inr u, w0)
      \<and> requests_get env listing_url headers w0 = (Inr r, w1)
      \<and> raise_for_status env r = None
      \<and> BeautifulSoup env (content env r) ''html.parser'' = Inr soup
      \<and> harvest_links env
           (select soup ''div.eventlist.eventlist--upcoming > article.eventlist-event > a'')
           [] w1 = (Inr events, w2)
      \<and> py_print env (total_message events) w2 = (Inr u', w')"
  using assms unfolding scrape_runway_events_try_def prog_defs
  by (simp split: prod.splits sum.splits option.splits)

lemma scrape_runway_events_returns_try:
  "scrape_runway_events_try env w = (Inr events, w') \<Longrightarrow>
   scrape_runway_events env w = (Inr events, w')"
  by (simp add: scrape_runway_events_def prog_defs)

lemma scrape_runway_events_handles:
  "scrape_runway_events_try env w = (Inl e, w1) \<Longrightarrow>
   scrape_runway_events env w =
     (case py_print env
             (case e of RequestException m \<Rightarrow> fetch_error_message e
                      | PyException m \<Rightarrow> parse_error_message e) w1 of
        (Inl e', w2) \<Rightarrow> (Inl e', w2)
      | (Inr u, w2) \<Rightarrow> (Inr [], w2))"
  by (simp add: scrape_runway_events_def prog_defs split: exn.split prod.split sum.split)

lemma scrape_runway_events_try_total:
  assumes ok: "\<forall>s w. fst (py_print env s w) = Inr ()"
    and get: "requests_get env listing_url headers (snd (py_print env fetching_message w))
        = (Inr r, w1)"
    and st: "raise_for_status env r = None"
    and bs: "BeautifulSoup env (content env r) ''html.parser'' = Inr soup"
  shows "\<exists>events w'. scrape_runway_events_try env w = (Inr events, w')"
proof -
  obtain p w0 where p: "py_print env fetching_message w = (p, w0)"
    by (cases "py_print env fetching_message w")
  with ok [rule_format, of fetching_message w] have pu: "p = Inr ()" by simp
  from get p have g: "requests_get env listing_url headers w0 = (Inr r, w1)" by simp
  from harvest_links_total [OF ok]
  obtain events w2 where h: "harvest_links env
      (select soup ''div.eventlist.eventlist--upcoming > article.eventlist-event > a'')
      [] w1 = (Inr events, w2)"
    by blast
  obtain q w3 where q: "py_print env (total_message events) w2 = (q, w3)"
    by (cases "py_print env (total_message events) w2")
  with ok [rule_format, of "total_message events" w2] have qu: "q = Inr ()" by simp
  have "scrape_runway_events_try env w = (Inr events, w3)"
    by (simp add: scrape_runway_events_try_def prog_defs p pu g st bs h q qu)
  then show ?thesis by blast
qed

section \<open>Evaluating the small site\<close>

lemmas site_eval = main_def site_def ascii_site_def ascii_console_def clock_def refused_def
    scrape_runway_events_def scrape_runway_events_try_def listing_url_def
    select_def site_listing_def get_text_def py_strip_def is_space_def get_or_def
    scrape_all_event_details_def scrape_event_details_def scrape_event_details_try_def
    detailed_event_def extract_details_eq select_one_def site_event_a_def site_event_b_def
    date_page_def Let_def dict_get_def dict_keys_def prog_defs str_nat_digit
    fetching_message_def found_message_def total_message_def fetch_error_message_def
    parse_error_message_def details_error_message_def progress_message_def
    scraping_message_def saved_message_def no_events_message_def

section \<open>The claims\<close>

subsection \<open>C1: the record of a failed detail fetch\<close>

text \<open>
  C1.  When the body of the \<open>try\<close> in \<open>scrape_event_details\<close> raises, the handler
  prints the exception and then returns the error record.  The record is returned
  only if that print completes: the handler is not itself guarded, so an exception
  raised by its print is raised by \<open>scrape_event_details\<close>.  On the small site with
  an ASCII console, the fetch of the second detail page fails with a message that
  holds a character outside ASCII: \<open>scrape_event_details\<close> raises the console's
  exception instead of returning a record; \<open>scrape_all_event_details\<close> raises it
  too, so neither the failed event nor its sibling gets a record; and the script
  ends with that exception, without a file.  On the console that prints every
  character the same failure gives the error record: \<open>title\<close>, \<open>date\<close>,
  \<open>start_time\<close>, \<open>end_time\<close> and \<open>book_link\<close> empty and the description \<open>Error:\<close>
  followed by the message; the record has no \<open>date_datetime\<close> and no
  \<open>book_link_text\<close> field.
\<close>

theorem detail_handler_print_raises:
  "scrape_event_details
      (ascii_site (Inr (200, ''listing'')) (Inl (RequestException refused)))
      ''https://www.runwayplayavista.com//events2/event-b'' clock
     = (Inl (PyException ''ascii codec cannot encode character''), clock)
   \<and> fst (scrape_all_event_details
          (ascii_site (Inr (200, ''listing'')) (Inl (RequestException refused)))
          [\<lparr>title = ''Jazz Night'',
            url = ''https://www.runwayplayavista.com//events2/event-a'',
            scraped_at = ''2025-08-01T09:00:01''\<rparr>,
           \<lparr>title = ''Movie Night'',
            url = ''https://www.runwayplayavista.com//events2/event-b'',
            scraped_at = ''2025-08-01T09:00:02''\<rparr>] clock)
     = Inl (PyException ''ascii codec cannot encode character'')
   \<and> fst (main (ascii_site (Inr (200, ''listing'')) (Inl (RequestException refused))) clock)
     = (Some (PyException ''ascii codec cannot encode character''), [])
   \<and> fst (scrape_event_details
          (site (Inr (200, ''listing'')) (Inl (RequestException refused)))
          ''https://www.runwayplayavista.com//events2/event-b'' clock)
     = Inr [(''title'', []), (''date'', []), (''start_time'', []), (''end_time'', []),
            (''book_link'', []), (''description'', ''Error: '' @ refused)]"
  by (simp add: site_eval)

subsection \<open>C2: the date without its day of week\<close>

text \<open>
  C2.  The date field is computed by \<open>split(', ', 1)\<close>: the separator is a comma
  followed by a space, while the comments beside it speak of the first comma
  (\<open>Split by comma and take the part after the first comma\<close>, \<open>Fallback to full text
  if no comma\<close>).  The detail page whose date text is \<open>Wednesday,August 6, 2025\<close>
  gets the date \<open>2025\<close>, where the text after the first comma is \<open>August 6, 2025\<close>;
  the detail page whose date text is \<open>Aug 6,2025\<close>, which has a comma, keeps the
  whole text as its date, where the text after the first comma is \<open>2025\<close>.
\<close>

theorem date_without_space_after_comma:
  "fst (scrape_event_details (site (Inr (200, ''listing'')) (Inr (200, ''event-b'')))
          ''https://www.runwayplayavista.com//events2/event-c'' clock)
     = Inr [(''title'', ''No title found''), (''date'', ''2025''), (''date_datetime'', []),
            (''start_time'', ''No start time found''), (''end_time'', ''No end time found''),
            (''book_link'', []), (''book_link_text'', []),
            (''description'', ''No description found'')]
   \<and> spec_date ''Wednesday,August 6, 2025'' = ''August 6, 2025''
   \<and> fst (scrape_event_details (site (Inr (200, ''listing'')) (Inr (200, ''event-b'')))
          ''https://www.runwayplayavista.com//events2/event-d'' clock)
     = Inr [(''title'', ''No title found''), (''date'', ''Aug 6,2025''), (''date_datetime'', []),
            (''start_time'', ''No start time found''), (''end_time'', ''No end time found''),
            (''book_link'', []), (''book_link_text'', []),
            (''description'', ''No description found'')]
   \<and> spec_date ''Aug 6,2025'' = ''2025''"
  by (simp add: site_eval spec_date_def)

subsection \<open>C3: the listing harvester and its handlers\<close>

text \<open>
  C3.  Both handlers of \<open>scrape_runway_events\<close> print the exception before they
  return the empty list, and the handlers are not themselves guarded: an exception
  raised by a handler's print is raised to the caller.  On the small site with an
  ASCII console, the fetch of the listing page fails with a message that holds a
  character outside ASCII, and \<open>scrape_runway_events\<close> raises the console's
  exception instead of returning the empty list.  On the console that prints every
  character the same failure gives the empty list.
\<close>

theorem listing_handler_print_raises:
  "scrape_runway_events
      (ascii_site (Inl (RequestException refused)) (Inr (200, ''event-b''))) clock
     = (Inl (PyException ''ascii codec cannot encode character''), clock)
   \<and> scrape_runway_events
      (site (Inl (RequestException refused)) (Inr (200, ''event-b''))) clock
     = (Inr [], clock)"
  by (simp add: site_eval)

subsection \<open>C4: the order of the output\<close>

text \<open>
  C4.  Whenever \<open>scrape_all_event_details\<close> returns, its output has one record per
  reference, in the order of the input: the \<open>i\<close>-th record is the \<open>i\<close>-th
  reference's \<open>url\<close> and \<open>scraped_at\<close> followed by the fields of the details
  extracted for that reference (in the world left by the references before it and
  by the print of its progress line).  Its \<open>title\<close> is the details' own, which is
  always present.  On a console that never raises, the function returns for every
  list of references.  The reference's title has no influence on a record:
  replacing the title of a reference changes no merged record, and on a console
  that treats every line alike, replacing the titles of the references changes
  nothing of the run.
\<close>

theorem scrape_all_event_details_order:
  "(\<forall>out w'. scrape_all_event_details env events w = (Inr out, w') \<longrightarrow>
      length out = length events
      \<and> (\<forall>i. i < length events \<longrightarrow>
           (\<exists>wi u wi' details wi''.
              detail_loop env (length events) 1 (take i events) [] w = (Inr (take i out), wi)
              \<and> py_print env (progress_message (Suc i) (length events) (events ! i)) wi
                  = (Inr u, wi')
              \<and> scrape_event_details env (url (events ! i)) wi' = (Inr details, wi'')
              \<and> out ! i = detailed_event (events ! i) details
              \<and> out ! i = (''url'', url (events ! i))
                    # (''scraped_at'', scraped_at (events ! i)) # details
              \<and> dict_get (out ! i) ''url'' = Some (url (events ! i))
              \<and> dict_get (out ! i) ''scraped_at'' = Some (scraped_at (events ! i))
              \<and> dict_get (out ! i) ''title'' = dict_get details ''title''
              \<and> dict_get details ''title'' \<noteq> None)))
   \<and> ((\<forall>s w. fst (py_print env s w) = Inr ()) \<longrightarrow>
        (\<exists>out w'. scrape_all_event_details env events w = (Inr out, w')))
   \<and> (\<forall>event details.
        detailed_event (title_update f event) details = detailed_event event details)
   \<and> ((\<forall>s s' w. py_print env s w = py_print env s' w) \<longrightarrow>
        scrape_all_event_details env (map (title_update f) events) w
          = scrape_all_event_details env events w)"
proof (intro conjI allI impI)
  fix out w'
  assume run: "scrape_all_event_details env events w = (Inr out, w')"
  then have loop: "detail_loop env (length events) 1 events [] w = (Inr out, w')"
    by (simp only: scrape_all_event_details_def)
  show "length out = length events"
    using loop by (rule detail_loop_length)
  fix i
  assume i: "i < length events"
  from detail_loop_nth [OF loop i]
  obtain wi u wi' details wi'' where
    a: "detail_loop env (length events) 1 (take i events) [] w = (Inr (take i out), wi)"
    and b: "py_print env (progress_message (Suc i) (length events) (events ! i)) wi
        = (Inr u, wi')"
    and c: "scrape_event_details env (url (events ! i)) wi' = (Inr details, wi'')"
    and d: "out ! i = detailed_event (events ! i) details"
    by auto
  have e: "out ! i = (''url'', url (events ! i))
      # (''scraped_at'', scraped_at (events ! i)) # details"
    unfolding d by (rule detailed_event_returned [OF c])
  have f1: "dict_get (out ! i) ''url'' = Some (url (events ! i))"
    unfolding e dict_get_def by simp
  have f2: "dict_get (out ! i) ''scraped_at'' = Some (scraped_at (events ! i))"
    unfolding e dict_get_def by simp
  have f3: "dict_get (out ! i) ''title'' = dict_get details ''title''"
    unfolding e dict_get_def by simp
  have f4: "dict_get details ''title'' \<noteq> None"
    using details_title_present [OF c] by auto
  from a b c d e f1 f2 f3 f4
  show "\<exists>wi u wi' details wi''.
          detail_loop env (length events) 1 (take i events) [] w = (Inr (take i out), wi)
          \<and> py_print env (progress_message (Suc i) (length events) (events ! i)) wi
              = (Inr u, wi')
          \<and> scrape_event_details env (url (events ! i)) wi' = (Inr details, wi'')
          \<and> out ! i = detailed_event (events ! i) details
          \<and> out ! i = (''url'', url (events ! i))
                # (''scraped_at'', scraped_at (events ! i)) # details
          \<and> dict_get (out ! i) ''url'' = Some (url (events ! i))
          \<and> dict_get (out ! i) ''scraped_at'' = Some (scraped_at (events ! i))
          \<and> dict_get (out ! i) ''title'' = dict_get details ''title''
          \<and> dict_get details ''title'' \<noteq> None"
    by (intro exI [of _ wi] exI [of _ u] exI [of _ wi'] exI [of _ details] exI [of _ wi'']
          conjI)
next
  assume "\<forall>s w. fst (py_print env s w) = Inr ()"
  then show "\<exists>out w'. scrape_all_event_details env events w = (Inr out, w')"
    unfolding scrape_all_event_details_def by (rule detail_loop_total)
next
  fix event details
  show "detailed_event (title_update f event) details = detailed_event event details"
    by (rule detailed_event_title)
next
  assume "\<forall>s s' w. py_print env s w = py_print env s' w"
  then show "scrape_all_event_details env (map (title_update f) events) w
          = scrape_all_event_details env events w"
    unfolding scrape_all_event_details_def length_map by (rule detail_loop_title)
qed

theorem scrape_all_event_details_order_witness:
  "scrape_all_event_details
          (site (Inr (200, ''listing'')) (Inr (200, ''event-b'')))
          [\<lparr>title = ''Jazz Night'',
            url = ''https://www.runwayplayavista.com//events2/event-a'',
            scraped_at = ''2025-08-01T09:00:01''\<rparr>,
           \<lparr>title = ''Movie Night'',
            url = ''https://www.runwayplayavista.com//events2/event-b'',
            scraped_at = ''2025-08-01T09:00:02''\<rparr>] clock =
     (Inr [[(''url'', ''https://www.runwayplayavista.com//events2/event-a''),
            (''scraped_at'', ''2025-08-01T09:00:01''),
            (''title'', ''Jazz on the Lawn''), (''date'', ''August 6, 2025''),
            (''date_datetime'', ''2025-08-06''),
            (''start_time'', ''6:00 PM''), (''end_time'', ''8:00 PM''),
            (''book_link'', ''https://example.com/rsvp''),
            (''book_link_text'', ''RSVP''),
            (''description'', ''Live music on the lawn.'')],
           [(''url'', ''https://www.runwayplayavista.com//events2/event-b''),
            (''scraped_at'', ''2025-08-01T09:00:02''),
            (''title'', ''No title found''), (''date'', ''No date found''),
            (''date_datetime'', []),
            (''start_time'', ''No start time found''),
            (''end_time'', ''No end time found''), (''book_link'', []),
            (''book_link_text'', []),
            (''description'', ''No description found'')]], clock)
   \<and> dict_get (projr (fst (scrape_all_event_details
          (site (Inr (200, ''listing'')) (Inr (200, ''event-b'')))
          [\<lparr>title = ''Jazz Night'',
            url = ''https://www.runwayplayavista.com//events2/event-a'',
            scraped_at = ''2025-08-01T09:00:01''\<rparr>,
           \<lparr>title = ''Movie Night'',
            url = ''https://www.runwayplayavista.com//events2/event-b'',
            scraped_at = ''2025-08-01T09:00:02''\<rparr>] clock)) ! 1) ''url''
       = Some ''https://www.runwayplayavista.com//events2/event-b''"
proof -
  let ?env = "site (Inr (200, ''listing'')) (Inr (200, ''event-b''))"
  let ?events = "[\<lparr>title = ''Jazz Night'',
            url = ''https://www.runwayplayavista.com//events2/event-a'',
            scraped_at = ''2025-08-01T09:00:01''\<rparr>,
           \<lparr>title = ''Movie Night'',
            url = ''https://www.runwayplayavista.com//events2/event-b'',
            scraped_at = ''2025-08-01T09:00:02''\<rparr>]"
  have ok: "\<forall>s w. fst (py_print ?env s w) = Inr ()"
    by (simp add: site_def)
  note t = scrape_all_event_details_order [where env = ?env and events = ?events and w = clock]
  from t [THEN conjunct2, THEN conjunct1, THEN mp, OF ok]
  obtain out w' where run: "scrape_all_event_details ?env ?events clock = (Inr out, w')"
    by blast
  note r = t [THEN conjunct1, rule_format, OF run]
  have len: "length out = 2"
    using r [THEN conjunct1] by simp
  have i1: "1 < length ?events" by simp
  from r [THEN conjunct2, rule_format, OF i1]
  have u1: "dict_get (out ! 1) ''url'' = Some (url (?events ! 1))"
    by blast
  have ev: "scrape_all_event_details ?env ?events clock =
     (Inr [[(''url'', ''https://www.runwayplayavista.com//events2/event-a''),
            (''scraped_at'', ''2025-08-01T09:00:01''),
            (''title'', ''Jazz on the Lawn''), (''date'', ''August 6, 2025''),
            (''date_datetime'', ''2025-08-06''),
            (''start_time'', ''6:00 PM''), (''end_time'', ''8:00 PM''),
            (''book_link'', ''https://example.com/rsvp''),
            (''book_link_text'', ''RSVP''),
            (''description'', ''Live music on the lawn.'')],
           [(''url'', ''https://www.runwayplayavista.com//events2/event-b''),
            (''scraped_at'', ''2025-08-01T09:00:02''),
            (''title'', ''No title found''), (''date'', ''No date found''),
            (''date_datetime'', []),
            (''start_time'', ''No start time found''),
            (''end_time'', ''No end time found''), (''book_link'', []),
            (''book_link_text'', []),
            (''description'', ''No description found'')]], clock)"
    by (simp add: site_eval)
  have "dict_get (projr (fst (scrape_all_event_details ?env ?events clock)) ! 1) ''url''
      = Some ''https://www.runwayplayavista.com//events2/event-b''"
    using u1 unfolding run by simp
  with ev show ?thesis by (intro conjI)
qed

subsection \<open>C5: sentinels on the success path\<close>

text \<open>
  C5.  When the detail page is fetched and parsed (the GET returns a response,
  \<open>raise_for_status\<close> and the parser do not raise), \<open>scrape_event_details\<close> returns
  one record, the one the extraction builds; the extraction itself never raises,
  and nothing is printed on this path.  The record always has the eight keys
  \<open>title\<close>, \<open>date\<close>, \<open>date_datetime\<close>, \<open>start_time\<close>, \<open>end_time\<close>, \<open>book_link\<close>,
  \<open>book_link_text\<close>, \<open>description\<close>, whichever elements the page lacks, and a
  field whose element is absent holds its sentinel: "No title found", "No date
  found", "No start time found", "No end time found", "No description found", and
  the empty string for \<open>date_datetime\<close>, \<open>book_link\<close> and \<open>book_link_text\<close>.
\<close>

theorem scrape_event_details_sentinels:
  assumes "requests_get env event_url headers w = (Inr r, w1)"
    and "raise_for_status env r = None"
    and "BeautifulSoup env (content env r) ''html.parser'' = Inr soup"
  shows "\<exists>details. scrape_event_details env event_url w = (Inr details, w1)
    \<and> extract_details soup = Inr details
    \<and> dict_keys details =
        [''title'', ''date'', ''date_datetime'', ''start_time'', ''end_time'',
         ''book_link'', ''book_link_text'', ''description'']
    \<and> (select_one soup ''h1.eventitem-title'' = None
        \<longrightarrow> dict_get details ''title'' = Some ''No title found'')
    \<and> (select_one soup ''time.event-date'' = None
        \<longrightarrow> dict_get details ''date'' = Some ''No date found''
          \<and> dict_get details ''date_datetime'' = Some [])
    \<and> (select_one soup ''time.event-time-localized-start'' = None
        \<longrightarrow> dict_get details ''start_time'' = Some ''No start time found'')
    \<and> (select_one soup ''time.event-time-localized-end'' = None
        \<longrightarrow> dict_get details ''end_time'' = Some ''No end time found'')
    \<and> (select_one soup
          ''a.sqs-block-button-element--medium.sqs-button-element--primary.sqs-block-button-element''
          = None
        \<longrightarrow> dict_get details ''book_link'' = Some []
          \<and> dict_get details ''book_link_text'' = Some [])
    \<and> (select_one soup ''div.sqs-block.html-block.sqs-block-html'' = None
        \<longrightarrow> dict_get details ''description'' = Some ''No description found'')"
proof -
  obtain details where d: "extract_details soup = Inr details"
    by (simp add: extract_details_eq)
  have "scrape_event_details_try env event_url w = (Inr details, w1)"
    using scrape_event_details_try_page [OF assms] d by simp
  then have run: "scrape_event_details env event_url w = (Inr details, w1)"
    by (rule scrape_event_details_success)
  from d have shape: "details = projr (extract_details soup)" by simp
  have keys: "dict_keys details =
        [''title'', ''date'', ''date_datetime'', ''start_time'', ''end_time'',
         ''book_link'', ''book_link_text'', ''description'']"
    unfolding shape extract_details_eq sum.sel dict_keys_def by simp
  have t: "select_one soup ''h1.eventitem-title'' = None
        \<longrightarrow> dict_get details ''title'' = Some ''No title found''"
    unfolding shape extract_details_eq sum.sel dict_get_def by simp
  have dt: "select_one soup ''time.event-date'' = None
        \<longrightarrow> dict_get details ''date'' = Some ''No date found''
          \<and> dict_get details ''date_datetime'' = Some []"
    unfolding shape extract_details_eq sum.sel dict_get_def by simp
  have st: "select_one soup ''time.event-time-localized-start'' = None
        \<longrightarrow> dict_get details ''start_time'' = Some ''No start time found''"
    unfolding shape extract_details_eq sum.sel dict_get_def by simp
  have et: "select_one soup ''time.event-time-localized-end'' = None
        \<longrightarrow> dict_get details ''end_time'' = Some ''No end time found''"
    unfolding shape extract_details_eq sum.sel dict_get_def by simp
  have bl: "select_one soup
          ''a.sqs-block-button-element--medium.sqs-button-element--primary.sqs-block-button-element''
          = None
        \<longrightarrow> dict_get details ''book_link'' = Some []
          \<and> dict_get details ''book_link_text'' = Some []"
    unfolding shape extract_details_eq sum.sel dict_get_def by simp
  have ds: "select_one soup ''div.sqs-block.html-block.sqs-block-html'' = None
        \<longrightarrow> dict_get details ''description'' = Some ''No description found''"
    unfolding shape extract_details_eq sum.sel dict_get_def by simp
  from run d keys t dt st et bl ds show ?thesis
    by (intro exI [of _ details] conjI)
qed

theorem scrape_event_details_sentinels_witness:
  "\<exists>details.
     scrape_event_details (site (Inr (200, ''listing'')) (Inr (200, ''event-b'')))
       ''https://www.runwayplayavista.com//events2/event-b'' clock = (Inr details, clock)
     \<and> extract_details site_event_b = Inr details
     \<and> dict_keys details =
        [''title'', ''date'', ''date_datetime'', ''start_time'', ''end_time'',
         ''book_link'', ''book_link_text'', ''description'']
     \<and> dict_get details ''title'' = Some ''No title found''
     \<and> dict_get details ''date'' = Some ''No date found''
     \<and> dict_get details ''date_datetime'' = Some []
     \<and> dict_get details ''start_time'' = Some ''No start time found''
     \<and> dict_get details ''end_time'' = Some ''No end time found''
     \<and> dict_get details ''book_link'' = Some []
     \<and> dict_get details ''book_link_text'' = Some []
     \<and> dict_get details ''description'' = Some ''No description found''"
proof -
  let ?env = "site (Inr (200, ''listing'')) (Inr (200, ''event-b''))"
  have a: "requests_get ?env ''https://www.runwayplayavista.com//events2/event-b'' headers clock
      = (Inr (200, ''event-b''), clock)"
    by (simp add: site_def)
  have b: "raise_for_status ?env (200, ''event-b'') = None"
    by (simp add: site_def)
  have c: "BeautifulSoup ?env (content ?env (200, ''event-b'')) ''html.parser''
      = Inr site_event_b"
    by (simp add: site_def)
  have none: "select_one site_event_b css = None" for css
    by (simp add: select_one_def select_def site_event_b_def)
  from scrape_event_details_sentinels [OF a b c] show ?thesis
    unfolding none by (simp only: simp_thms conj_assoc)
qed

subsection \<open>C6: the url of a reference\<close>

text \<open>
  C6.  The url of every reference emitted for an anchor is the fixed origin string
  \<open>https://www.runwayplayavista.com/\<close> followed by the anchor's href, as it is: the
  urls of the harvested references are, in listing order, the origin concatenated
  with each non-empty href of the matched anchors, for any list of anchors whose
  harvest returns and for the whole of \<open>scrape_runway_events\<close> whenever the body of
  its \<open>try\<close> returns; on a console that never raises it does return once the
  listing page is fetched and parsed.  Nothing is normalised: an href that starts
  with a slash gives a double slash, and an href that is already absolute is
  prefixed all the same.
\<close>

theorem harvested_urls:
  "(\<forall>events w'. harvest_links env links [] w = (Inr events, w') \<longrightarrow>
      map url events =
        map (\<lambda>href. ''https://www.runwayplayavista.com/'' @ href)
          (filter (\<lambda>href. href \<noteq> [])
             (List.map_filter (\<lambda>link. attrs link ''href'') links)))
   \<and> (\<forall>events w'. scrape_runway_events_try env w = (Inr events, w') \<longrightarrow>
        scrape_runway_events env w = (Inr events, w')
        \<and> (\<exists>u w0 r w1 soup.
              py_print env fetching_message w = (Inr u, w0)
              \<and> requests_get env listing_url headers w0 = (Inr r, w1)
              \<and> raise_for_status env r = None
              \<and> BeautifulSoup env (content env r) ''html.parser'' = Inr soup
              \<and> map url events =
                  map (\<lambda>href. ''https://www.runwayplayavista.com/'' @ href)
                    (filter (\<lambda>href. href \<noteq> [])
                       (List.map_filter (\<lambda>link. attrs link ''href'')
                          (select soup
                             ''div.eventlist.eventlist--upcoming > article.eventlist-event > a'')))))
   \<and> (\<forall>r w1 soup.
        (\<forall>s w. fst (py_print env s w) = Inr ())
        \<and> requests_get env listing_url headers (snd (py_print env fetching_message w))
            = (Inr r, w1)
        \<and> raise_for_status env r = None
        \<and> BeautifulSoup env (content env r) ''html.parser'' = Inr soup \<longrightarrow>
        (\<exists>events w'. scrape_runway_events env w = (Inr events, w')
           \<and> map url events =
               map (\<lambda>href. ''https://www.runwayplayavista.com/'' @ href)
                 (filter (\<lambda>href. href \<noteq> [])
                    (List.map_filter (\<lambda>link. attrs link ''href'')
                       (select soup
                          ''div.eventlist.eventlist--upcoming > article.eventlist-event > a'')))))
   \<and> (\<forall>link href events w' ev.
        attrs link ''href'' = Some href
        \<and> harvest_links env [link] [] w = (Inr events, w')
        \<and> ev \<in> set events \<longrightarrow>
        url ev = ''https://www.runwayplayavista.com/'' @ href)"
proof -
  have c1: "map url events =
        map (\<lambda>href. ''https://www.runwayplayavista.com/'' @ href)
          (filter (\<lambda>href. href \<noteq> [])
             (List.map_filter (\<lambda>link. attrs link ''href'') links))"
    if "harvest_links env links [] w = (Inr events, w')" for events w'
    using that by (rule harvest_links_urls)
  have c2: "scrape_runway_events env w = (Inr events, w')
        \<and> (\<exists>u w0 r w1 soup.
              py_print env fetching_message w = (Inr u, w0)
              \<and> requests_get env listing_url headers w0 = (Inr r, w1)
              \<and> raise_for_status env r = None
              \<and> BeautifulSoup env (content env r) ''html.parser'' = Inr soup
              \<and> map url events =
                  map (\<lambda>href. ''https://www.runwayplayavista.com/'' @ href)
                    (filter (\<lambda>href. href \<noteq> [])
                       (List.map_filter (\<lambda>link. attrs link ''href'')
                          (select soup
                             ''div.eventlist.eventlist--upcoming > article.eventlist-event > a''))))"
    if t: "scrape_runway_events_try env w = (Inr events, w')" for events w'
  proof -
    from scrape_runway_events_try_returned [OF t]
    obtain u w0 r w1 soup w2 where
      p: "py_print env fetching_message w = (Inr u, w0)"
      and g: "requests_get env listing_url headers w0 = (Inr r, w1)"
      and s: "raise_for_status env r = None"
      and b: "BeautifulSoup env (content env r) ''html.parser'' = Inr soup"
      and h: "harvest_links env
           (select soup ''div.eventlist.eventlist--upcoming > article.eventlist-event > a'')
           [] w1 = (Inr events, w2)"
      by blast
    note m = harvest_links_urls [OF h]
    from p g s b m have "\<exists>u w0 r w1 soup.
              py_print env fetching_message w = (Inr u, w0)
              \<and> requests_get env listing_url headers w0 = (Inr r, w1)
              \<and> raise_for_status env r = None
              \<and> BeautifulSoup env (content env r) ''html.parser'' = Inr soup
              \<and> map url events =
                  map (\<lambda>href. ''https://www.runwayplayavista.com/'' @ href)
                    (filter (\<lambda>href. href \<noteq> [])
                       (List.map_filter (\<lambda>link. attrs link ''href'')
                          (select soup
                             ''div.eventlist.eventlist--upcoming > article.eventlist-event > a'')))"
      by (intro exI [of _ u] exI [of _ w0] exI [of _ r] exI [of _ w1] exI [of _ soup] conjI)
    with scrape_runway_events_returns_try [OF t] show ?thesis
      by (intro conjI)
  qed
  have c3: "\<exists>events w'. scrape_runway_events env w = (Inr events, w')
           \<and> map url events =
               map (\<lambda>href. ''https://www.runwayplayavista.com/'' @ href)
                 (filter (\<lambda>href. href \<noteq> [])
                    (List.map_filter (\<lambda>link. attrs link ''href'')
                       (select soup
                          ''div.eventlist.eventlist--upcoming > article.eventlist-event > a'')))"
    if h: "(\<forall>s w. fst (py_print env s w) = Inr ())
        \<and> requests_get env listing_url headers (snd (py_print env fetching_message w))
            = (Inr r, w1)
        \<and> raise_for_status env r = None
        \<and> BeautifulSoup env (content env r) ''html.parser'' = Inr soup" for r w1 soup
  proof -
    from h have ok: "\<forall>s w. fst (py_print env s w) = Inr ()"
      and g: "requests_get env listing_url headers (snd (py_print env fetching_message w))
            = (Inr r, w1)"
      and s: "raise_for_status env r = None"
      and b: "BeautifulSoup env (content env r) ''html.parser'' = Inr soup"
      by (rule conjunct1, rule conjunct2 [THEN conjunct1],
          rule conjunct2 [THEN conjunct2, THEN conjunct1],
          rule conjunct2 [THEN conjunct2, THEN conjunct2])
    from scrape_runway_events_try_total [OF ok g s b]
    obtain events w' where t: "scrape_runway_events_try env w = (Inr events, w')"
      by blast
    from scrape_runway_events_try_returned [OF t]
    obtain u w0 r' w1' soup' w2 where
      p: "py_print env fetching_message w = (Inr u, w0)"
      and g': "requests_get env listing_url headers w0 = (Inr r', w1')"
      and b': "BeautifulSoup env (content env r') ''html.parser'' = Inr soup'"
      and hv: "harvest_links env
           (select soup' ''div.eventlist.eventlist--upcoming > article.eventlist-event > a'')
           [] w1' = (Inr events, w2)"
      by blast
    from p g g' have "r' = r" by simp
    with b b' have "soup' = soup" by simp
    with hv have hv': "harvest_links env
           (select soup ''div.eventlist.eventlist--upcoming > article.eventlist-event > a'')
           [] w1' = (Inr events, w2)"
      by simp
    from scrape_runway_events_returns_try [OF t] harvest_links_urls [OF hv']
    show ?thesis
      by (intro exI [of _ events] exI [of _ w'] conjI)
  qed
  have c4: "url ev = ''https://www.runwayplayavista.com/'' @ href"
    if h: "attrs link ''href'' = Some href
        \<and> harvest_links env [link] [] w = (Inr events, w')
        \<and> ev \<in> set events" for link href events w' ev
  proof -
    from h have href: "attrs link ''href'' = Some href"
      and run: "harvest_links env [link] [] w = (Inr events, w')"
      and ev: "ev \<in> set events"
      by (rule conjunct1, rule conjunct2 [THEN conjunct1], rule conjunct2 [THEN conjunct2])
    have "map url events = map (\<lambda>href. ''https://www.runwayplayavista.com/'' @ href)
          (filter (\<lambda>href. href \<noteq> []) (List.map_filter (\<lambda>link. attrs link ''href'') [link]))"
      using run by (rule harvest_links_urls)
    then have "map url events = (if href = [] then []
        else [''https://www.runwayplayavista.com/'' @ href])"
      using href by (simp add: map_filter_simps)
    then have "set (map url events) \<subseteq> {''https://www.runwayplayavista.com/'' @ href}"
      by (simp split: if_splits)
    moreover from ev have "url ev \<in> set (map url events)" by simp
    ultimately show ?thesis by blast
  qed
  from c1 have a1: "\<forall>events w'. harvest_links env links [] w = (Inr events, w') \<longrightarrow>
      map url events =
        map (\<lambda>href. ''https://www.runwayplayavista.com/'' @ href)
          (filter (\<lambda>href. href \<noteq> [])
             (List.map_filter (\<lambda>link. attrs link ''href'') links))"
    by (intro allI impI)
  from c2 have a2: "\<forall>events w'. scrape_runway_events_try env w = (Inr events, w') \<longrightarrow>
        scrape_runway_events env w = (Inr events, w')
        \<and> (\<exists>u w0 r w1 soup.
              py_print env fetching_message w = (Inr u, w0)
              \<and> requests_get env listing_url headers w0 = (Inr r, w1)
              \<and> raise_for_status env r = None
              \<and> BeautifulSoup env (content env r) ''html.parser'' = Inr soup
              \<and> map url events =
                  map (\<lambda>href. ''https://www.runwayplayavista.com/'' @ href)
                    (filter (\<lambda>href. href \<noteq> [])
                       (List.map_filter (\<lambda>link. attrs link ''href'')
                          (select soup
                             ''div.eventlist.eventlist--upcoming > article.eventlist-event > a''))))"
    by (intro allI impI)
  from c3 have a3: "\<forall>r w1 soup.
        (\<forall>s w. fst (py_print env s w) = Inr ())
        \<and> requests_get env listing_url headers (snd (py_print env fetching_message w))
            = (Inr r, w1)
        \<and> raise_for_status env r = None
        \<and> BeautifulSoup env (content env r) ''html.parser'' = Inr soup \<longrightarrow>
        (\<exists>events w'. scrape_runway_events env w = (Inr events, w')
           \<and> map url events =
               map (\<lambda>href. ''https://www.runwayplayavista.com/'' @ href)
                 (filter (\<lambda>href. href \<noteq> [])
                    (List.map_filter (\<lambda>link. attrs link ''href'')
                       (select soup
                          ''div.eventlist.eventlist--upcoming > article.eventlist-event > a''))))"
    by (intro allI impI)
  from c4 have a4: "\<forall>link href events w' ev.
        attrs link ''href'' = Some href
        \<and> harvest_links env [link] [] w = (Inr events, w')
        \<and> ev \<in> set events \<longrightarrow>
        url ev = ''https://www.runwayplayavista.com/'' @ href"
    by (intro allI impI)
  from a1 a2 a3 a4 show ?thesis
    by (intro conjI)
qed

theorem harvested_urls_witness:
  "map_sum id (map url)
     (fst (harvest_links (site (Inr (200, ''listing'')) (Inr (200, ''event-b'')))
       [\<lparr>strings = [''Jazz Night''], attrs = [''href'' \<mapsto> ''/events2/event-a'']\<rparr>,
        \<lparr>strings = [''Tickets''], attrs = [''href'' \<mapsto> ''https://tickets.example/x'']\<rparr>,
        \<lparr>strings = [''Up''], attrs = [''href'' \<mapsto> ''../about'']\<rparr>] [] clock)) =
     Inr [''https://www.runwayplayavista.com//events2/event-a'',
          ''https://www.runwayplayavista.com/https://tickets.example/x'',
          ''https://www.runwayplayavista.com/../about'']
   \<and> map_sum id (map url)
       (fst (scrape_runway_events
               (site (Inr (200, ''listing'')) (Inr (200, ''event-b''))) clock)) =
     Inr [''https://www.runwayplayavista.com//events2/event-a'',
          ''https://www.runwayplayavista.com//events2/event-b'']"
proof -
  let ?env = "site (Inr (200, ''listing'')) (Inr (200, ''event-b''))"
  let ?links = "[\<lparr>strings = [''Jazz Night''], attrs = [''href'' \<mapsto> ''/events2/event-a'']\<rparr>,
        \<lparr>strings = [''Tickets''], attrs = [''href'' \<mapsto> ''https://tickets.example/x'']\<rparr>,
        \<lparr>strings = [''Up''], attrs = [''href'' \<mapsto> ''../about'']\<rparr>]"
  have ok: "\<forall>s w. fst (py_print ?env s w) = Inr ()"
    by (simp add: site_def)
  have h: "(\<forall>s w. fst (py_print ?env s w) = Inr ())
        \<and> requests_get ?env listing_url headers (snd (py_print ?env fetching_message clock))
            = (Inr (200, ''listing''), clock)
        \<and> raise_for_status ?env (200, ''listing'') = None
        \<and> BeautifulSoup ?env (content ?env (200, ''listing'')) ''html.parser''
            = Inr site_listing"
    by (simp add: site_def listing_url_def)
  note t = harvested_urls [where env = ?env and w = clock]
  from harvest_links_total [OF ok, of ?links "[]" clock]
  obtain events w' where run: "harvest_links ?env ?links [] clock = (Inr events, w')"
    by blast
  from t [THEN conjunct1, rule_format, OF run]
  have "map url events =
     [''https://www.runwayplayavista.com//events2/event-a'',
      ''https://www.runwayplayavista.com/https://tickets.example/x'',
      ''https://www.runwayplayavista.com/../about'']"
    by (simp add: map_filter_simps)
  then have a: "map_sum id (map url) (fst (harvest_links ?env ?links [] clock)) =
     Inr [''https://www.runwayplayavista.com//events2/event-a'',
          ''https://www.runwayplayavista.com/https://tickets.example/x'',
          ''https://www.runwayplayavista.com/../about'']"
    unfolding run by simp
  from t [THEN conjunct2, THEN conjunct2, THEN conjunct1, rule_format, OF h]
  obtain events2 w2 where run2: "scrape_runway_events ?env clock = (Inr events2, w2)"
    and u2: "map url events2 =
               map (\<lambda>href. ''https://www.runwayplayavista.com/'' @ href)
                 (filter (\<lambda>href. href \<noteq> [])
                    (List.map_filter (\<lambda>link. attrs link ''href'')
                       (select site_listing
                          ''div.eventlist.eventlist--upcoming > article.eventlist-event > a'')))"
    by blast
  from u2 have "map url events2 =
     [''https://www.runwayplayavista.com//events2/event-a'',
      ''https://www.runwayplayavista.com//events2/event-b'']"
    by (simp add: map_filter_simps select_def site_listing_def)
  then have b: "map_sum id (map url) (fst (scrape_runway_events ?env clock)) =
     Inr [''https://www.runwayplayavista.com//events2/event-a'',
          ''https://www.runwayplayavista.com//events2/event-b'']"
    unfolding run2 by simp
  from a b show ?thesis by (intro conjI)
qed

subsection \<open>C7: skipped anchors and the title of a reference\<close>

text \<open>
  The claim as stated fails: an anchor whose href attribute is present and empty
  has an href, and it is skipped like an anchor without one, since the code tests
  the truth value of the href.
\<close>

theorem empty_href_counterexample:
  "spec_has_href \<lparr>strings = [''Gala''], attrs = [''href'' \<mapsto> []]\<rparr>
   \<and> fst (harvest_links (site (Inr (200, ''listing'')) (Inr (200, ''event-b'')))
           [\<lparr>strings = [''Gala''], attrs = [''href'' \<mapsto> []]\<rparr>] [] clock) = Inr []"
  by (simp add: spec_has_href_def)

text \<open>
  C7, amended.  A matched anchor that has no href, or whose href is the empty
  string, is skipped: it produces no reference, prints nothing and leaves the
  world as it is.  Every other matched anchor produces exactly one reference,
  returned once the line that reports it is printed; its title is the anchor's
  visible text when that text is not empty, the anchor's title attribute when the
  text is empty and the attribute is present, and the literal "No title" when the
  text is empty and the attribute is absent.  The references of a list of anchors
  are those of its first anchor followed by those of the rest.
\<close>

theorem harvested_title:
  "((attrs link ''href'' = None \<or> attrs link ''href'' = Some []) \<longrightarrow>
      harvest_links env [link] [] w = (Inr [], w))
   \<and> (\<forall>href. attrs link ''href'' = Some href \<and> href \<noteq> [] \<longrightarrow>
        (\<exists>ev. harvest_links env [link] [] w =
                 (case py_print env (found_message (title ev) href)
                         (snd (datetime_now_isoformat env w)) of
                    (Inl e, w2) \<Rightarrow> (Inl e, w2)
                  | (Inr u, w2) \<Rightarrow> (Inr [ev], w2))
           \<and> (\<forall>events w'. harvest_links env [link] [] w = (Inr events, w') \<longrightarrow>
                events = [ev])
           \<and> (get_text [] link \<noteq> [] \<longrightarrow> title ev = get_text [] link)
           \<and> (get_text [] link = [] \<longrightarrow>
                (\<forall>t. attrs link ''title'' = Some t \<longrightarrow> title ev = t))
           \<and> (get_text [] link = [] \<and> attrs link ''title'' = None \<longrightarrow>
                title ev = ''No title'')))
   \<and> harvest_links env (link # links) [] w =
       (case harvest_links env [link] [] w of
          (Inl e, w1) \<Rightarrow> (Inl e, w1)
        | (Inr evs, w1) \<Rightarrow>
            (case harvest_links env links [] w1 of
               (Inl e, w2) \<Rightarrow> (Inl e, w2)
             | (Inr rest, w2) \<Rightarrow> (Inr (evs @ rest), w2)))"
proof -
  have skip: "(attrs link ''href'' = None \<or> attrs link ''href'' = Some []) \<longrightarrow>
      harvest_links env [link] [] w = (Inr [], w)"
    by (intro impI) (rule harvest_single_skip)
  have emit: "\<exists>ev. harvest_links env [link] [] w =
                 (case py_print env (found_message (title ev) href)
                         (snd (datetime_now_isoformat env w)) of
                    (Inl e, w2) \<Rightarrow> (Inl e, w2)
                  | (Inr u, w2) \<Rightarrow> (Inr [ev], w2))
           \<and> (\<forall>events w'. harvest_links env [link] [] w = (Inr events, w') \<longrightarrow>
                events = [ev])
           \<and> (get_text [] link \<noteq> [] \<longrightarrow> title ev = get_text [] link)
           \<and> (get_text [] link = [] \<longrightarrow>
                (\<forall>t. attrs link ''title'' = Some t \<longrightarrow> title ev = t))
           \<and> (get_text [] link = [] \<and> attrs link ''title'' = None \<longrightarrow>
                title ev = ''No title'')"
    if h: "attrs link ''href'' = Some href \<and> href \<noteq> []" for href
  proof -
    define ev where "ev = \<lparr>title = (if get_text [] link \<noteq> [] then get_text [] link
                                        else get_or link ''title'' ''No title''),
                            url = ''https://www.runwayplayavista.com/'' @ href,
                            scraped_at = fst (datetime_now_isoformat env w)\<rparr>"
    have t: "title ev = (if get_text [] link \<noteq> [] then get_text [] link
                          else get_or link ''title'' ''No title'')"
      by (simp add: ev_def)
    have run: "harvest_links env [link] [] w =
                 (case py_print env (found_message (title ev) href)
                         (snd (datetime_now_isoformat env w)) of
                    (Inl e, w2) \<Rightarrow> (Inl e, w2)
                  | (Inr u, w2) \<Rightarrow> (Inr [ev], w2))"
    proof -
      have e: "[ev] = [\<lparr>title = (if get_text [] link \<noteq> [] then get_text [] link
                                  else get_or link ''title'' ''No title''),
                       url = ''https://www.runwayplayavista.com/'' @ href,
                       scraped_at = fst (datetime_now_isoformat env w)\<rparr>]"
        by (simp only: ev_def)
      show ?thesis
        by (simp only: t e harvest_single_emit [OF h [THEN conjunct1] h [THEN conjunct2]])
    qed
    have only: "\<forall>events w'. harvest_links env [link] [] w = (Inr events, w') \<longrightarrow>
                events = [ev]"
      unfolding run by (simp split: prod.split sum.split)
    have t1: "get_text [] link \<noteq> [] \<longrightarrow> title ev = get_text [] link"
      by (simp add: t)
    have t2: "get_text [] link = [] \<longrightarrow>
                (\<forall>t. attrs link ''title'' = Some t \<longrightarrow> title ev = t)"
      by (simp add: t get_or_def)
    have t3: "get_text [] link = [] \<and> attrs link ''title'' = None \<longrightarrow>
                title ev = ''No title''"
      by (simp add: t get_or_def)
    from run only t1 t2 t3 show ?thesis
      by (intro exI [of _ ev] conjI)
  qed
  from emit have emit': "\<forall>href. attrs link ''href'' = Some href \<and> href \<noteq> [] \<longrightarrow>
        (\<exists>ev. harvest_links env [link] [] w =
                 (case py_print env (found_message (title ev) href)
                         (snd (datetime_now_isoformat env w)) of
                    (Inl e, w2) \<Rightarrow> (Inl e, w2)
                  | (Inr u, w2) \<Rightarrow> (Inr [ev], w2))
           \<and> (\<forall>events w'. harvest_links env [link] [] w = (Inr events, w') \<longrightarrow>
                events = [ev])
           \<and> (get_text [] link \<noteq> [] \<longrightarrow> title ev = get_text [] link)
           \<and> (get_text [] link = [] \<longrightarrow>
                (\<forall>t. attrs link ''title'' = Some t \<longrightarrow> title ev = t))
           \<and> (get_text [] link = [] \<and> attrs link ''title'' = None \<longrightarrow>
                title ev = ''No title''))"
    by (intro allI impI)
  from skip emit' harvest_links_Cons [of env link links w] show ?thesis
    by (intro conjI)
qed

theorem harvested_title_witness:
  "map_sum id (map title)
     (fst (harvest_links (site (Inr (200, ''listing'')) (Inr (200, ''event-b'')))
       [\<lparr>strings = ['' Jazz Night  ''],
         attrs = [''href'' \<mapsto> ''/events2/event-a'', ''title'' \<mapsto> ''Jazz'']\<rparr>] [] clock))
     = Inr [''Jazz Night'']
   \<and> map_sum id (map title)
       (fst (harvest_links (site (Inr (200, ''listing'')) (Inr (200, ''event-b'')))
         [\<lparr>strings = [''  ''],
           attrs = [''href'' \<mapsto> ''/events2/event-b'', ''title'' \<mapsto> ''Movie Night'']\<rparr>] []
         clock))
     = Inr [''Movie Night'']
   \<and> map_sum id (map title)
       (fst (harvest_links (site (Inr (200, ''listing'')) (Inr (200, ''event-b'')))
         [\<lparr>strings = [], attrs = [''href'' \<mapsto> ''/events2/event-c'']\<rparr>] [] clock))
     = Inr [''No title'']
   \<and> harvest_links (site (Inr (200, ''listing'')) (Inr (200, ''event-b'')))
       [\<lparr>strings = [''Gala''], attrs = [''title'' \<mapsto> ''Gala'']\<rparr>] [] clock
     = (Inr [], clock)"
proof -
  let ?env = "site (Inr (200, ''listing'')) (Inr (200, ''event-b''))"
  let ?a = "\<lparr>strings = ['' Jazz Night  ''],
         attrs = [''href'' \<mapsto> ''/events2/event-a'', ''title'' \<mapsto> ''Jazz'']\<rparr>"
  let ?b = "\<lparr>strings = [''  ''],
         attrs = [''href'' \<mapsto> ''/events2/event-b'', ''title'' \<mapsto> ''Movie Night'']\<rparr>"
  let ?c = "\<lparr>strings = [], attrs = [''href'' \<mapsto> ''/events2/event-c'']\<rparr>"
  let ?d = "\<lparr>strings = [''Gala''], attrs = [''title'' \<mapsto> ''Gala'']\<rparr>"
  have pr: "py_print ?env s w = (Inr (), w)" for s w
    by (simp add: site_def)
  have ta: "get_text [] ?a = ''Jazz Night''" and tb: "get_text [] ?b = []"
    and tc: "get_text [] ?c = []"
    by (simp_all add: get_text_def py_strip_def is_space_def)
  have ha: "attrs ?a ''href'' = Some ''/events2/event-a'' \<and> ''/events2/event-a'' \<noteq> []"
    and hb: "attrs ?b ''href'' = Some ''/events2/event-b'' \<and> ''/events2/event-b'' \<noteq> []"
    and hc: "attrs ?c ''href'' = Some ''/events2/event-c'' \<and> ''/events2/event-c'' \<noteq> []"
    and hd: "attrs ?d ''href'' = None \<or> attrs ?d ''href'' = Some []"
    by simp_all
  have "\<exists>ev. fst (harvest_links ?env [?a] [] clock) = Inr [ev] \<and> title ev = ''Jazz Night''"
    using harvested_title [where env = ?env and w = clock and link = ?a,
        THEN conjunct2, THEN conjunct1, rule_format, OF ha]
  proof (elim exE conjE)
    fix ev
    assume r: "harvest_links ?env [?a] [] clock =
        (case py_print ?env (found_message (title ev) ''/events2/event-a'')
                (snd (datetime_now_isoformat ?env clock)) of
           (Inl e, w2) \<Rightarrow> (Inl e, w2)
         | (Inr u, w2) \<Rightarrow> (Inr [ev], w2))"
      and t: "get_text [] ?a \<noteq> [] \<longrightarrow> title ev = get_text [] ?a"
    from r have f: "fst (harvest_links ?env [?a] [] clock) = Inr [ev]"
      by (simp only: pr prod.case sum.case fst_conv)
    from t have g: "title ev = ''Jazz Night''"
      unfolding ta by simp
    from f g show ?thesis
      by (intro exI [of _ ev] conjI)
  qed
  then have a: "map_sum id (map title) (fst (harvest_links ?env [?a] [] clock))
      = Inr [''Jazz Night'']"
    by (rule title_of_single)
  have "\<exists>ev. fst (harvest_links ?env [?b] [] clock) = Inr [ev] \<and> title ev = ''Movie Night''"
    using harvested_title [where env = ?env and w = clock and link = ?b,
        THEN conjunct2, THEN conjunct1, rule_format, OF hb]
  proof (elim exE conjE)
    fix ev
    assume r: "harvest_links ?env [?b] [] clock =
        (case py_print ?env (found_message (title ev) ''/events2/event-b'')
                (snd (datetime_now_isoformat ?env clock)) of
           (Inl e, w2) \<Rightarrow> (Inl e, w2)
         | (Inr u, w2) \<Rightarrow> (Inr [ev], w2))"
      and t: "get_text [] ?b = [] \<longrightarrow> (\<forall>t. attrs ?b ''title'' = Some t \<longrightarrow> title ev = t)"
    from r have f: "fst (harvest_links ?env [?b] [] clock) = Inr [ev]"
      by (simp only: pr prod.case sum.case fst_conv)
    from t have g: "title ev = ''Movie Night''"
      unfolding tb by simp
    from f g show ?thesis
      by (intro exI [of _ ev] conjI)
  qed
  then have b: "map_sum id (map title) (fst (harvest_links ?env [?b] [] clock))
      = Inr [''Movie Night'']"
    by (rule title_of_single)
  have "\<exists>ev. fst (harvest_links ?env [?c] [] clock) = Inr [ev] \<and> title ev = ''No title''"
    using harvested_title [where env = ?env and w = clock and link = ?c,
        THEN conjunct2, THEN conjunct1, rule_format, OF hc]
  proof (elim exE conjE)
    fix ev
    assume r: "harvest_links ?env [?c] [] clock =
        (case py_print ?env (found_message (title ev) ''/events2/event-c'')
                (snd (datetime_now_isoformat ?env clock)) of
           (Inl e, w2) \<Rightarrow> (Inl e, w2)
         | (Inr u, w2) \<Rightarrow> (Inr [ev], w2))"
      and t: "get_text [] ?c = [] \<and> attrs ?c ''title'' = None \<longrightarrow> title ev = ''No title''"
    from r have f: "fst (harvest_links ?env [?c] [] clock) = Inr [ev]"
      by (simp only: pr prod.case sum.case fst_conv)
    from t have g: "title ev = ''No title''"
      unfolding tc by simp
    from f g show ?thesis
      by (intro exI [of _ ev] conjI)
  qed
  then have c: "map_sum id (map title) (fst (harvest_links ?env [?c] [] clock))
      = Inr [''No title'']"
    by (rule title_of_single)
  note d = harvested_title [where env = ?env and w = clock and link = ?d,
        THEN conjunct1, rule_format, OF hd]
  from a b c d show ?thesis by (intro conjI)
qed

subsection \<open>C8: the output file\<close>




subsection \<open>C9: the whitespace collapse is idempotent\<close>

text \<open>
  C9.  The whitespace collapse applied to the description text is idempotent:
  collapsing an already collapsed string changes nothing.
\<close>

theorem collapse_ws_idempotent: "collapse_ws (collapse_ws s) = collapse_ws s"
proof (induction s rule: collapse_ws.induct)
  case 1
  show ?case by simp
next
  case (2 c cs)
  show ?case
  proof (cases "is_space c")
    case True
    with 2 show ?thesis
      by (simp add: is_space_blank dropWhile_collapse_ws)
  next
    case False
    with 2 show ?thesis by simp
  qed
qed

subsection \<open>C10: the keys of the failure record\<close>

text \<open>
  C10.  When the body of the \<open>try\<close> in \<open>scrape_event_details\<close> raises and the
  function returns a record, the record has exactly the keys \<open>title\<close>, \<open>date\<close>,
  \<open>start_time\<close>, \<open>end_time\<close>, \<open>book_link\<close> and \<open>description\<close>: \<open>date_datetime\<close> and
  \<open>book_link_text\<close> are absent.  The merged output record of a failed detail fetch
  therefore has two fields fewer than the merged record of a successful one (eight
  against ten).
\<close>

theorem failure_record_keys:
  assumes "fst (scrape_event_details_try env event_url w) = Inl e"
    and "fst (scrape_event_details env event_url w) = Inr failure"
    and "fst (scrape_event_details_try env' event_url' w') = Inr details'"
  shows "dict_keys failure =
      [''title'', ''date'', ''start_time'', ''end_time'', ''book_link'', ''description'']
    \<and> dict_get failure ''date_datetime'' = None
    \<and> dict_get failure ''book_link_text'' = None
    \<and> dict_keys (detailed_event event failure) =
      [''url'', ''scraped_at'',
       ''title'', ''date'', ''start_time'', ''end_time'', ''book_link'', ''description'']
    \<and> fst (scrape_event_details env' event_url' w') = Inr details'
    \<and> dict_keys (detailed_event event' details') =
      [''url'', ''scraped_at'',
       ''title'', ''date'', ''date_datetime'', ''start_time'', ''end_time'',
       ''book_link'', ''book_link_text'', ''description'']
    \<and> length (detailed_event event failure) + 2 = length (detailed_event event' details')"
proof -
  obtain w2 where run: "scrape_event_details env event_url w = (Inr failure, w2)"
    using assms(2) by (cases "scrape_event_details env event_url w") simp
  from scrape_event_details_returned [OF run] assms(1)
  have f: "failure = [(''title'', []), (''date'', []), (''start_time'', []),
      (''end_time'', []), (''book_link'', []), (''description'', ''Error: '' @ exn_str e)]"
    by auto
  from assms(3) scrape_event_details_try_cases [of env' event_url' w']
  obtain soup where "fst (scrape_event_details_try env' event_url' w') = extract_details soup"
    by auto
  with assms(3) have d: "details' = projr (extract_details soup)" by simp
  obtain w1' where "scrape_event_details_try env' event_url' w' = (Inr details', w1')"
    using assms(3) by (cases "scrape_event_details_try env' event_url' w'") simp
  then have "scrape_event_details env' event_url' w' = (Inr details', w1')"
    by (rule scrape_event_details_success)
  then have s: "fst (scrape_event_details env' event_url' w') = Inr details'"
    by simp
  have k1: "dict_keys failure =
      [''title'', ''date'', ''start_time'', ''end_time'', ''book_link'', ''description'']"
    unfolding f dict_keys_def by simp
  have k2: "dict_get failure ''date_datetime'' = None"
    unfolding f dict_get_def by simp
  have k3: "dict_get failure ''book_link_text'' = None"
    unfolding f dict_get_def by simp
  have k4: "dict_keys (detailed_event event failure) =
      [''url'', ''scraped_at'',
       ''title'', ''date'', ''start_time'', ''end_time'', ''book_link'', ''description'']"
    unfolding f detailed_event_def dict_update_fresh6 dict_keys_def by simp
  have k5: "dict_keys (detailed_event event' details') =
      [''url'', ''scraped_at'',
       ''title'', ''date'', ''date_datetime'', ''start_time'', ''end_time'',
       ''book_link'', ''book_link_text'', ''description'']"
    unfolding d extract_details_eq sum.sel detailed_event_def dict_update_fresh8 dict_keys_def
    by simp
  have "length (dict_keys (detailed_event event failure)) + 2
      = length (dict_keys (detailed_event event' details'))"
    unfolding k4 k5 by simp
  then have k6: "length (detailed_event event failure) + 2
      = length (detailed_event event' details')"
    by (simp add: dict_keys_def)
  from k1 k2 k3 k4 s k5 k6 show ?thesis
    by (intro conjI)
qed

theorem failure_record_keys_witness:
  "dict_keys
     [(''title'', []), (''date'', []), (''start_time'', []), (''end_time'', []),
      (''book_link'', []), (''description'', ''Error: connection refused'')] =
      [''title'', ''date'', ''start_time'', ''end_time'', ''book_link'', ''description'']
   \<and> length (detailed_event
         \<lparr>title = ''Movie Night'',
          url = ''https://www.runwayplayavista.com//events2/event-b'',
          scraped_at = ''2025-08-01T09:00:02''\<rparr>
         [(''title'', []), (''date'', []), (''start_time'', []), (''end_time'', []),
          (''book_link'', []), (''description'', ''Error: connection refused'')]) + 2
     = length (detailed_event
         \<lparr>title = ''Jazz Night'',
          url = ''https://www.runwayplayavista.com//events2/event-a'',
          scraped_at = ''2025-08-01T09:00:01''\<rparr>
         (projr (extract_details site_event_a)))"
proof -
  let ?env = "site (Inr (200, ''listing'')) (Inl (RequestException ''connection refused''))"
  have a: "fst (scrape_event_details_try ?env
      ''https://www.runwayplayavista.com//events2/event-b'' clock)
      = Inl (RequestException ''connection refused'')"
    by (simp add: scrape_event_details_try_def site_def prog_defs)
  have b: "fst (scrape_event_details ?env
      ''https://www.runwayplayavista.com//events2/event-b'' clock)
      = Inr [(''title'', []), (''date'', []), (''start_time'', []), (''end_time'', []),
             (''book_link'', []), (''description'', ''Error: connection refused'')]"
    by (simp add: scrape_event_details_def scrape_event_details_try_def site_def prog_defs)
  have c: "fst (scrape_event_details_try ?env
      ''https://www.runwayplayavista.com//events2/event-a'' clock)
      = Inr (projr (extract_details site_event_a))"
    by (simp add: scrape_event_details_try_def site_def extract_details_eq prog_defs)
  note k = failure_record_keys [OF a b c]
  from k [THEN conjunct1]
    k [THEN conjunct2, THEN conjunct2, THEN conjunct2, THEN conjunct2, THEN conjunct2,
       THEN conjunct2]
  show ?thesis
    by (intro conjI)
qed

end
